theory Spec2Isabelle
  imports Main
begin

section \<open>Python strings\<close>

text \<open>
  A Python \<^verbatim>\<open>str\<close> is a sequence of Unicode code points, and \<^verbatim>\<open>len\<close> and slicing count
  code points. A string is therefore a list of natural numbers; \<open>lit\<close> embeds an ASCII
  literal of the source.
\<close>

type_synonym str = "nat list"

definition lit :: "string \<Rightarrow> str" where
  "lit s = map of_char s"

text \<open>\<^verbatim>\<open>str.isspace\<close> of one code point: the white space that \<^verbatim>\<open>str.strip()\<close> removes.\<close>

definition isspace :: "nat \<Rightarrow> bool" where
  "isspace c \<longleftrightarrow>
     (9 \<le> c \<and> c \<le> 13) \<or> (28 \<le> c \<and> c \<le> 32) \<or> c = 133 \<or> c = 160 \<or> c = 5760 \<or>
     (8192 \<le> c \<and> c \<le> 8202) \<or> c = 8232 \<or> c = 8233 \<or> c = 8239 \<or> c = 8287 \<or> c = 12288"

definition py_strip :: "str \<Rightarrow> str" where
  "py_strip s = rev (dropWhile isspace (rev (dropWhile isspace s)))"

definition startswith :: "str \<Rightarrow> str \<Rightarrow> bool" where
  "startswith s p \<longleftrightarrow> take (length p) s = p"

text \<open>\<^verbatim>\<open>s.find(sub)\<close>: the index of the first occurrence, \<open>None\<close> for Python's -1.\<close>

fun find_sub :: "str \<Rightarrow> str \<Rightarrow> nat option" where
  "find_sub sub [] = (if sub = [] then Some 0 else None)"
| "find_sub sub (c # cs) =
     (if startswith (c # cs) sub then Some 0 else map_option Suc (find_sub sub cs))"

text \<open>\<^verbatim>\<open>sub in s\<close>\<close>

definition contains :: "str \<Rightarrow> str \<Rightarrow> bool" where
  "contains s sub \<longleftrightarrow> find_sub sub s \<noteq> None"

text \<open>\<^verbatim>\<open>sep.join(xs)\<close>\<close>

fun py_join :: "str \<Rightarrow> str list \<Rightarrow> str" where
  "py_join sep [] = []"
| "py_join sep [x] = x"
| "py_join sep (x # y # ys) = x @ sep @ py_join sep (y # ys)"

text \<open>
  \<^verbatim>\<open>s.split(sep)\<close> for a one-character separator, the only form whose result the source
  uses (\<^verbatim>\<open>split('\n')\<close>). The result is never empty.
\<close>

fun py_split :: "nat \<Rightarrow> str \<Rightarrow> str list" where
  "py_split sep [] = [[]]"
| "py_split sep (c # cs) =
     (if c = sep then [] # py_split sep cs
      else (case py_split sep cs of
              [] \<Rightarrow> [[c]]
            | l # ls \<Rightarrow> (c # l) # ls))"

text \<open>
  \<^verbatim>\<open>s.split(sep, 1)[1]\<close> where \<^verbatim>\<open>sep in s\<close>: the text after the first occurrence of
  \<open>sep\<close>. Python raises IndexError when \<open>sep\<close> does not occur.
\<close>

definition after_first :: "str \<Rightarrow> str \<Rightarrow> str option" where
  "after_first sep s =
     (case find_sub sep s of
        None \<Rightarrow> None
      | Some i \<Rightarrow> Some (drop (i + length sep) s))"

text \<open>
  \<^verbatim>\<open>s.replace(old, new)\<close> replaces every occurrence of \<open>old\<close>, scanning from the left
  without overlap; \<^verbatim>\<open>s.replace(old, new, 1)\<close> replaces the first one only. The source
  calls both with a non-empty \<open>old\<close>.
\<close>

function py_replace :: "str \<Rightarrow> str \<Rightarrow> str \<Rightarrow> str" where
  "py_replace old new [] = []"
| "py_replace old new (c # cs) =
     (if old \<noteq> [] \<and> startswith (c # cs) old
      then new @ py_replace old new (drop (length old) (c # cs))
      else c # py_replace old new cs)"
  by pat_completeness auto
termination
  by (relation "measure (\<lambda>(old, new, s). length s)") (auto simp: neq_Nil_conv)

fun py_replace1 :: "str \<Rightarrow> str \<Rightarrow> str \<Rightarrow> str" where
  "py_replace1 old new [] = []"
| "py_replace1 old new (c # cs) =
     (if old \<noteq> [] \<and> startswith (c # cs) old
      then new @ drop (length old) (c # cs)
      else c # py_replace1 old new cs)"

text \<open>\<^verbatim>\<open>str(n)\<close> of a non-negative integer: its decimal digits.\<close>

fun str_of_nat :: "nat \<Rightarrow> str" where
  "str_of_nat n = (if n < 10 then [48 + n] else str_of_nat (n div 10) @ [48 + n mod 10])"

declare str_of_nat.simps [simp del]

text \<open>
  Reading a file in text mode, as \<^verbatim>\<open>Path.read_text\<close> does, gives every carriage return
  followed by a line feed, and every other carriage return, as one line feed.
\<close>

fun universal_newlines :: "str \<Rightarrow> str" where
  "universal_newlines [] = []"
| "universal_newlines [c] = [if c = 13 then 10 else c]"
| "universal_newlines (c # d # cs) =
     (if c = 13 \<and> d = 10 then 10 # universal_newlines cs
      else if c = 13 then 10 # universal_newlines (d # cs)
      else c # universal_newlines (d # cs))"

text \<open>A dict whose keys and values are strings; \<^verbatim>\<open>d.get(k, default)\<close>.\<close>

type_synonym pydict = "str \<rightharpoonup> str"

definition dict_get :: "pydict \<Rightarrow> str \<Rightarrow> str \<Rightarrow> str" where
  "dict_get d k dflt = (case d k of None \<Rightarrow> dflt | Some v \<Rightarrow> v)"

section \<open>Exceptions, the world and its environment\<close>

datatype error = OSError | OracleError str | TypeError | AttributeError

subsection \<open>JSON values\<close>

text \<open>
  What \<^verbatim>\<open>request.get_json()\<close> may return: any JSON value, as Python holds it. A float is
  a mantissa times a power of two, or one of the three values that are no numbers. The
  members of an object are kept in the order of the text; as in the Python dict, a later
  member replaces an earlier one of the same name.
\<close>

datatype pyfloat = Finite int int | NaN | Infinity bool

datatype json =
    JNull
  | JBool bool
  | JInt int
  | JFloat pyfloat
  | JStr str
  | JList "json list"
  | JObj "(str \<times> json) list"

text \<open>\<^verbatim>\<open>bool(v)\<close>, which \<^verbatim>\<open>not v\<close> and \<^verbatim>\<open>if v\<close> read.\<close>

fun truthy :: "json \<Rightarrow> bool" where
  "truthy JNull = False"
| "truthy (JBool b) = b"
| "truthy (JInt i) = (i \<noteq> 0)"
| "truthy (JFloat x) = (case x of Finite m ex \<Rightarrow> m \<noteq> 0 | _ \<Rightarrow> True)"
| "truthy (JStr s) = (s \<noteq> [])"
| "truthy (JList xs) = (xs \<noteq> [])"
| "truthy (JObj kvs) = (kvs \<noteq> [])"

text \<open>
  \<^verbatim>\<open>len(v)\<close> counts the characters of a string, the elements of a list and the keys of a
  dict, and raises TypeError on every other value.
\<close>

fun py_len :: "json \<Rightarrow> error + nat" where
  "py_len (JStr s) = Inr (length s)"
| "py_len (JList xs) = Inr (length xs)"
| "py_len (JObj kvs) = Inr (length (remdups (map fst kvs)))"
| "py_len JNull = Inl TypeError"
| "py_len (JBool b) = Inl TypeError"
| "py_len (JInt i) = Inl TypeError"
| "py_len (JFloat x) = Inl TypeError"

text \<open>\<^verbatim>\<open>v[:n]\<close> cuts a string or a list and raises on every other value.\<close>

fun py_slice :: "nat \<Rightarrow> json \<Rightarrow> error + json" where
  "py_slice n (JStr s) = Inr (JStr (take n s))"
| "py_slice n (JList xs) = Inr (JList (take n xs))"
| "py_slice n (JObj kvs) = Inl TypeError"
| "py_slice n JNull = Inl TypeError"
| "py_slice n (JBool b) = Inl TypeError"
| "py_slice n (JInt i) = Inl TypeError"
| "py_slice n (JFloat x) = Inl TypeError"

text \<open>\<^verbatim>\<open>data.get(k, '')\<close> on the dict of an object.\<close>

definition dict_field :: "(str \<times> json) list \<Rightarrow> str \<Rightarrow> json" where
  "dict_field kvs k = (case map_of (rev kvs) k of None \<Rightarrow> JStr [] | Some v \<Rightarrow> v)"

text \<open>
  The verdict report that the services hand to each other is a dict with the two keys
  \<^verbatim>\<open>confidence\<close> and \<^verbatim>\<open>details\<close>.
\<close>

definition report_dict :: "str \<Rightarrow> str \<Rightarrow> pydict" where
  "report_dict c d = [lit ''confidence'' \<mapsto> c, lit ''details'' \<mapsto> d]"

text \<open>What \<^verbatim>\<open>court.hear\<close> returns, as far as \<^verbatim>\<open>verify_text\<close> reads it.\<close>

record vote =
  jury_name :: str
  decision :: str
  reason :: str

record claim_result =
  verdict :: str
  judge_reasoning :: str
  jury_votes :: "vote list"

record court_report =
  claims :: "claim_result list"

text \<open>
  The court that \<^verbatim>\<open>build_court\<close> assembles. Prompts and model parameters are
  constants handed to the library and are left out; the reference material of each juror
  is kept.
\<close>

datatype reference = SimpleTextStorage str | LocalRAGReference str

record jury =
  name :: str
  model_name :: str
  reference :: "reference option"

record court =
  juries :: "jury list"
  quorum :: nat
  concurrency_limit :: nat

text \<open>
  Every read, write and oracle call is recorded in the world, next to the files.
\<close>

datatype event =
    ReadFile str
  | WriteFile str
  | AppendFile str
  | OracleHear court str
  | OracleGenerate str str str

record world =
  files :: "str \<rightharpoonup> str"
  events :: "event list"

definition log_event :: "event \<Rightarrow> world \<Rightarrow> world" where
  "log_event ev w = w\<lparr>events := events w @ [ev]\<rparr>"

text \<open>
  The places where the operating system or a library constructor may raise, for whatever
  reason (a missing permission, a full disk, a text without an encoding); an operation
  that fails is taken to fail as a whole. Next to them the
  environment of one call: the oracles (\<^verbatim>\<open>court.hear\<close>, \<^verbatim>\<open>client.generate\<close>), which
  operations fail, the readings of the clock, the two system prompts of the source (long
  constant texts that no branch depends on), the Unicode tables behind
  \<^verbatim>\<open>str.isdigit\<close> and \<^verbatim>\<open>str.upper\<close>, the serialiser \<^verbatim>\<open>json.dump\<close>, and the text that
  Python's \<^verbatim>\<open>str()\<close> gives for a value that is not a string.
\<close>

datatype io_op =
    CourtInit
  | ReadLedger
  | CourtAssemble
  | FactLog
  | SiteLog
  | MkdirData
  | MkdirFeedback
  | WriteBackup
  | AppendLedger

record env =
  hear :: "court \<Rightarrow> str \<Rightarrow> error + court_report"
  generate :: "str \<Rightarrow> str \<Rightarrow> str \<Rightarrow> error + pydict"
  io_fails :: "io_op \<Rightarrow> bool"
  now_strftime :: str
  now_iso :: str
  now_iso2 :: str
  convert_system_prompt :: str
  extract_system_prompt :: str
  isdigit :: "nat \<Rightarrow> bool"
  upper :: "str \<Rightarrow> str"
  json_dump :: "(str \<times> json) list \<Rightarrow> str"
  py_repr :: "json \<Rightarrow> str"

definition ledger_path :: str where
  "ledger_path = lit ''data/user_feedback_db.txt''"

definition rule80 :: str where
  "rule80 = replicate 80 61"

section \<open>court_manager.py\<close>

text \<open>
  The world keeps the text of a file as it was written (the model is of a POSIX system,
  where text mode writes a line feed as it is). \<^verbatim>\<open>read_text\<close> returns it with the
  newlines of text mode.
\<close>

definition read_ledger :: "env \<Rightarrow> world \<Rightarrow> world \<times> (error + str)" where
  "read_ledger e w =
     (if io_fails e ReadLedger then (w, Inl OSError)
      else (case files w ledger_path of
              None \<Rightarrow> (w, Inl OSError)
            | Some t \<Rightarrow> (log_event (ReadFile ledger_path) w, Inr (universal_newlines t))))"

definition jury_gpt :: jury where
  "jury_gpt = \<lparr>name = lit ''Logic_GPT'', model_name = lit ''openai/gpt-4o-mini'',
     reference = None\<rparr>"

definition jury_gemini :: jury where
  "jury_gemini = \<lparr>name = lit ''Logic_Gemini'',
     model_name = lit ''google/gemini-2.5-flash-lite'', reference = None\<rparr>"

definition jury_web :: jury where
  "jury_web = \<lparr>name = lit ''Web_Search_Jury'', model_name = lit ''perplexity/sonar'',
     reference = None\<rparr>"

definition jury_rag :: jury where
  "jury_rag = \<lparr>name = lit ''RAG_Jury'', model_name = lit ''openai/gpt-4o-mini'',
     reference = Some (LocalRAGReference (lit ''fact_check_knowledge''))\<rparr>"

definition jury_feedback :: "str \<Rightarrow> jury" where
  "jury_feedback feedback_content =
     \<lparr>name = lit ''User_Feedback_Jury'', model_name = lit ''openai/gpt-4o-mini'',
      reference = Some (SimpleTextStorage feedback_content)\<rparr>"

text \<open>
  \<^verbatim>\<open>build_court\<close> reads the ledger once, between the constructors of the library that
  run before the read and those that run after it; any of them may raise.
\<close>

definition build_court :: "env \<Rightarrow> world \<Rightarrow> world \<times> (error + court)" where
  "build_court e w =
     (if io_fails e CourtInit then (w, Inl OSError)
      else (case read_ledger e w of
              (w1, Inl x) \<Rightarrow> (w1, Inl x)
            | (w1, Inr feedback_content) \<Rightarrow>
                if io_fails e CourtAssemble then (w1, Inl OSError)
                else (w1, Inr \<lparr>juries = [jury_gpt, jury_gemini, jury_web, jury_rag,
                                          jury_feedback feedback_content],
                                quorum = 3, concurrency_limit = 5\<rparr>)))"

text \<open>\<^verbatim>\<open>verdict_map.get(res.verdict, "SUSPICIOUS")\<close>\<close>

definition verdict_map :: pydict where
  "verdict_map = [lit ''supported'' \<mapsto> lit ''CLEAN'',
                  lit ''suspicious'' \<mapsto> lit ''SUSPICIOUS'',
                  lit ''refuted'' \<mapsto> lit ''FAKE'']"

text \<open>The icons are the code points that the literals of the source file hold.\<close>

definition icon_ok :: str where "icon_ok = [8218, 250, 236]"
definition icon_bad :: str where "icon_bad = [8218, 250, 243]"
definition icon_warn :: str where "icon_warn = [8218, 246, 8224]"

definition vote_lines :: "vote \<Rightarrow> str list" where
  "vote_lines v =
     (let vote_icon = (if decision v = lit ''no_objection'' then icon_ok else icon_warn)
      in [lit ''  '' @ vote_icon @ lit '' '' @ jury_name v @ lit '': '' @ decision v] @
         (if reason v \<noteq> []
          then [lit ''     Reasoning: '' @ take 200 (reason v) @ lit ''...'']
          else []))"

definition claim_report :: "claim_result \<Rightarrow> pydict" where
  "claim_report res =
     (let mapped_verdict = dict_get verdict_map (verdict res) (lit ''SUSPICIOUS'');
          icon = (if mapped_verdict = lit ''CLEAN'' then icon_ok
                  else if mapped_verdict = lit ''FAKE'' then icon_bad else icon_warn);
          details_lines =
            [icon @ lit '' Overall Verdict: '' @ mapped_verdict, []] @
            (if judge_reasoning res \<noteq> []
             then [lit ''Judge's Reasoning:'', judge_reasoning res, []] else []) @
            [lit ''Jury Votes:''] @
            concat (map vote_lines (jury_votes res));
          details_str = py_join [10] details_lines
      in report_dict mapped_verdict
           (if details_str = []
            then lit ''Content verified. No logical fallacies or factual errors detected by the jury.''
            else details_str))"

definition verify_text :: "env \<Rightarrow> world \<Rightarrow> str \<Rightarrow> world \<times> (error + pydict)" where
  "verify_text e w text =
     (case build_court e w of
        (w1, Inl x) \<Rightarrow> (w1, Inl x)
      | (w1, Inr c) \<Rightarrow>
          (let safe_text = take 12000 text;
               w2 = log_event (OracleHear c safe_text) w1
           in (case hear e c safe_text of
                 Inl x \<Rightarrow> (w2, Inl x)
               | Inr report \<Rightarrow>
                   (case claims report of
                      [] \<Rightarrow> (w2, Inr (report_dict (lit ''N/A'')
                                 (lit ''No claims were processed by the court.'')))
                    | res # _ \<Rightarrow> (w2, Inr (claim_report res))))))"

section \<open>fake_news.py\<close>

subsection \<open>convert_court_result_to_user_format\<close>

definition user_query :: "str \<Rightarrow> str \<Rightarrow> str" where
  "user_query confidence court_details =
     lit ''Judge's Initial Verdict: '' @ confidence @ [10, 10] @
     lit ''Detailed Report from Fact-Checking System:'' @ [10] @ court_details @ [10, 10] @
     lit ''TASK:'' @ [10] @
     lit ''1. Review the jury votes (especially User_Feedback_Jury and RAG_Jury)'' @ [10] @
     lit ''2. If User_Feedback_Jury AND RAG_Jury both voted '' @ [34] @ lit ''no_objection'' @
       [34] @ lit '', override the verdict to CLEAN'' @ [10] @
     lit ''3. Convert to a user-friendly message (max 3-4 lines)'' @ [10] @
     lit ''4. Return in this format:'' @ [10] @
     lit ''   VERDICT: [CLEAN/SUSPICIOUS/FAKE]'' @ [10] @
     lit ''   MESSAGE: [your user-friendly message]''"

definition valid_labels :: "str list" where
  "valid_labels = [lit ''CLEAN'', lit ''SUSPICIOUS'', lit ''FAKE'']"

text \<open>
  The loop over \<^verbatim>\<open>enumerate(lines)\<close>: the argument is \<^verbatim>\<open>lines[i:]\<close>, the line under
  inspection and those after it. A \<^verbatim>\<open>VERDICT:\<close> line may replace the label and the loop
  goes on; the first \<^verbatim>\<open>MESSAGE:\<close> line fixes the details and breaks.
\<close>

fun parse_reply :: "str list \<Rightarrow> str \<Rightarrow> str \<Rightarrow> str \<times> str" where
  "parse_reply [] final_confidence user_friendly_details =
     (final_confidence, user_friendly_details)"
| "parse_reply (line # rest) final_confidence user_friendly_details =
     (if startswith line (lit ''VERDICT:'') then
        (let verdict_value = py_strip (py_replace (lit ''VERDICT:'') [] line)
         in parse_reply rest
              (if verdict_value \<in> set valid_labels then verdict_value else final_confidence)
              user_friendly_details)
      else if startswith line (lit ''MESSAGE:'') then
        (final_confidence,
         py_strip (py_replace1 (lit ''MESSAGE:'') [] (py_join [10] (line # rest))))
      else parse_reply rest final_confidence user_friendly_details)"

text \<open>
  Any exception of the body (the oracle raises, or its reply has no \<^verbatim>\<open>result\<close>) is caught
  and the court result is returned as it came. The oracle is called with the model name,
  the system prompt and the query; the constant temperature and \<^verbatim>\<open>lastk\<close> are left out.
\<close>

definition convert_court_result_to_user_format ::
  "env \<Rightarrow> world \<Rightarrow> pydict \<Rightarrow> nat \<Rightarrow> str \<Rightarrow> world \<times> pydict" where
  "convert_court_result_to_user_format e w court_result fact_count url =
     (let confidence = dict_get court_result (lit ''confidence'') (lit ''N/A'');
          court_details = dict_get court_result (lit ''details'') [];
          q = user_query confidence court_details;
          w1 = log_event (OracleGenerate (lit ''4o-mini'') (convert_system_prompt e) q) w
      in (case generate e (lit ''4o-mini'') (convert_system_prompt e) q of
            Inl x \<Rightarrow> (w1, court_result)
          | Inr response \<Rightarrow>
              (case response (lit ''result'') of
                 None \<Rightarrow> (w1, court_result)
               | Some r \<Rightarrow>
                   (let result_text = py_strip r;
                        (final_confidence, user_friendly_details) =
                          parse_reply (py_split 10 result_text) confidence result_text
                    in (w1, report_dict final_confidence
                              (if final_confidence = confidence \<and>
                                  \<not> contains result_text (lit ''VERDICT:'')
                               then result_text else user_friendly_details))))))"

subsection \<open>call_factcheck_service\<close>

text \<open>
  \<^verbatim>\<open>facts_list\<close> is a list of strings at every call of the source, so
  \<^verbatim>\<open>isinstance(facts_list, list)\<close> holds and \<^verbatim>\<open>str(fact)\<close> is the fact.
\<close>

definition fact_log_text :: "env \<Rightarrow> str \<Rightarrow> str list \<Rightarrow> str" where
  "fact_log_text e url facts_list =
     lit ''URL: '' @ url @ [10] @
     lit ''Timestamp: '' @ now_iso e @ [10] @
     rule80 @ [10, 10] @
     (if facts_list \<noteq> []
      then lit ''Total Facts: '' @ str_of_nat (length facts_list) @ [10, 10] @
           lit ''Facts to Check:'' @ [10, 10] @
           concat (map (\<lambda>(i, fact). str_of_nat i @ lit ''. '' @ py_strip fact @ [10])
                       (enumerate 1 facts_list))
      else lit ''No facts extracted.'' @ [10])"

definition write_fact_log :: "env \<Rightarrow> world \<Rightarrow> str \<Rightarrow> str list \<Rightarrow> world" where
  "write_fact_log e w url facts_list =
     (let filename = lit ''fact_list/facts_'' @ now_strftime e @ lit ''.txt''
      in log_event (WriteFile filename)
           (w\<lparr>files := (files w)(filename \<mapsto> fact_log_text e url facts_list)\<rparr>))"

definition facts_text :: "str list \<Rightarrow> str" where
  "facts_text facts_list =
     py_join [10] (map (\<lambda>(i, fact). str_of_nat i @ lit ''. '' @ fact) (enumerate 1 facts_list))"

definition fallback_result :: "nat \<Rightarrow> pydict" where
  "fallback_result fact_count =
     report_dict (lit ''CLEAN'')
       (lit ''Content verification completed. '' @ str_of_nat fact_count @
        lit '' claims analyzed. (Model Court temporarily unavailable, using fallback mode)'')"

text \<open>
  The outer \<^verbatim>\<open>try\<close> covers the log file; the inner one covers the court, the lookup
  \<^verbatim>\<open>court_result['confidence']\<close>, the conversion and the lookup in its result.
\<close>

definition call_factcheck_service ::
  "env \<Rightarrow> world \<Rightarrow> str list \<Rightarrow> str \<Rightarrow> str \<Rightarrow> world \<times> pydict" where
  "call_factcheck_service e w facts_list url test_mode =
     (if io_fails e FactLog
      then (w, report_dict (lit ''N/A'') (lit ''Analysis incomplete due to technical error.''))
      else
        (let w1 = write_fact_log e w url facts_list;
             fact_count = length facts_list
         in if facts_list = []
            then (w1, report_dict (lit ''N/A'') (lit ''No facts extracted for verification.''))
            else
              (case verify_text e w1 (facts_text facts_list) of
                 (w2, Inl x) \<Rightarrow> (w2, fallback_result fact_count)
               | (w2, Inr court_result) \<Rightarrow>
                   (case court_result (lit ''confidence'') of
                      None \<Rightarrow> (w2, fallback_result fact_count)
                    | Some _ \<Rightarrow>
                        (case convert_court_result_to_user_format e w2 court_result
                                fact_count url of
                           (w3, user_friendly_result) \<Rightarrow>
                             (case user_friendly_result (lit ''confidence'') of
                                None \<Rightarrow> (w3, fallback_result fact_count)
                              | Some _ \<Rightarrow> (w3, user_friendly_result)))))))"

subsection \<open>save_user_feedback and submit_feedback\<close>

text \<open>
  What an f-string writes for a value: a string as it is, every other value through
  \<^verbatim>\<open>str()\<close>.
\<close>

definition fmt :: "env \<Rightarrow> json \<Rightarrow> str" where
  "fmt e v = (case v of JStr s \<Rightarrow> s | _ \<Rightarrow> py_repr e v)"

text \<open>
  The line of the feedback type. In the last branch \<^verbatim>\<open>feedback_type.upper()\<close> raises
  AttributeError on a value that is not a string.
\<close>

definition type_line :: "env \<Rightarrow> json \<Rightarrow> error + str" where
  "type_line e feedback_type =
     (if feedback_type = JStr (lit ''fact'')
      then Inr (lit ''TYPE: '' @ [10003] @ lit '' VERIFIED AS TRUE'' @ [10])
      else if feedback_type = JStr (lit ''suspicious_fact'')
      then Inr (lit ''TYPE: '' @ [9888] @ lit '' MARKED AS SUSPICIOUS'' @ [10])
      else if feedback_type = JStr (lit ''fake_fact'')
      then Inr (lit ''TYPE: '' @ [10007] @ lit '' REPORTED AS FAKE'' @ [10])
      else (case feedback_type of
              JStr s \<Rightarrow> Inr (lit ''TYPE: '' @ upper e s @ [10])
            | _ \<Rightarrow> Inl AttributeError))"

text \<open>The header that opens every record of the ledger, up to the time stamp.\<close>

definition record_header :: str where
  "record_header = [10] @ rule80 @ [10] @ lit ''[USER FEEDBACK] ''"

text \<open>
  The arguments of the \<^verbatim>\<open>f.write\<close> calls under the append handle, in order; computing one
  of them may raise.
\<close>

definition record_chunks ::
  "env \<Rightarrow> json \<Rightarrow> json \<Rightarrow> json \<Rightarrow> json \<Rightarrow> json \<Rightarrow> (error + str) list" where
  "record_chunks e url content_background feedback_content feedback_type feedback_prove =
     [Inr ([10] @ rule80 @ [10]),
      Inr (lit ''[USER FEEDBACK] '' @ now_iso2 e @ [10]),
      Inr (rule80 @ [10]),
      Inr (lit ''URL: '' @ fmt e url @ [10, 10]),
      type_line e feedback_type,
      Inr ([10] @ lit ''CLAIM:'' @ [10] @ fmt e feedback_content @ [10, 10]),
      Inr (lit ''EVIDENCE/PROOF:'' @ [10] @ fmt e feedback_prove @ [10, 10])] @
     (if truthy content_background
      then [case py_slice 300 content_background of
              Inl x \<Rightarrow> Inl x
            | Inr v \<Rightarrow> Inr (lit ''CONTEXT:'' @ [10] @ fmt e v @ lit ''...'' @ [10, 10])]
      else [])"

text \<open>
  The writes go to the file one after the other: what was written before an exception stays
  in the file when the handle is closed.
\<close>

fun write_chunks :: "(error + str) list \<Rightarrow> str \<times> error option" where
  "write_chunks [] = ([], None)"
| "write_chunks (Inl x # rest) = ([], Some x)"
| "write_chunks (Inr t # rest) = (case write_chunks rest of (ts, r) \<Rightarrow> (t @ ts, r))"

definition ledger_record :: "env \<Rightarrow> json \<Rightarrow> json \<Rightarrow> json \<Rightarrow> json \<Rightarrow> json \<Rightarrow> str" where
  "ledger_record e url content_background feedback_content feedback_type feedback_prove =
     fst (write_chunks (record_chunks e url content_background feedback_content
                          feedback_type feedback_prove))"

definition feedback_data ::
  "env \<Rightarrow> json \<Rightarrow> json \<Rightarrow> json \<Rightarrow> json \<Rightarrow> json \<Rightarrow> (str \<times> json) list" where
  "feedback_data e url background_500 feedback_content feedback_type feedback_prove =
     [(lit ''timestamp'', JStr (now_iso e)),
      (lit ''url'', url),
      (lit ''content_background'', background_500),
      (lit ''feedback_content'', feedback_content),
      (lit ''feedback_type'', feedback_type),
      (lit ''feedback_prove'', feedback_prove)]"

text \<open>
  \<^verbatim>\<open>content_background[:500] if content_background else ""\<close> raises on a value that is
  true and cannot be cut. Opening a file in mode \<^verbatim>\<open>'a'\<close> creates it when it is absent.
  Every exception is raised again to the caller.
\<close>

definition save_user_feedback ::
  "env \<Rightarrow> world \<Rightarrow> json \<Rightarrow> json \<Rightarrow> json \<Rightarrow> json \<Rightarrow> json \<Rightarrow> world \<times> (error + unit)" where
  "save_user_feedback e w url content_background feedback_content feedback_type feedback_prove =
     (if io_fails e MkdirData then (w, Inl OSError)
      else if io_fails e MkdirFeedback then (w, Inl OSError)
      else
        (let backup_filename = lit ''fact_feedback/feedback_'' @ now_strftime e @ lit ''.txt''
         in (case (if truthy content_background then py_slice 500 content_background
                   else Inr (JStr [])) of
               Inl x \<Rightarrow> (w, Inl x)
             | Inr background_500 \<Rightarrow>
                 if io_fails e WriteBackup then (w, Inl OSError)
                 else
                   (let w1 = log_event (WriteFile backup_filename)
                               (w\<lparr>files := (files w)(backup_filename \<mapsto>
                                    json_dump e (feedback_data e url background_500
                                      feedback_content feedback_type feedback_prove))\<rparr>)
                    in if io_fails e AppendLedger then (w1, Inl OSError)
                       else
                         (let old = (case files w1 ledger_path of None \<Rightarrow> [] | Some t \<Rightarrow> t);
                              written = write_chunks (record_chunks e url content_background
                                          feedback_content feedback_type feedback_prove);
                              w2 = log_event (AppendFile ledger_path)
                                     (w1\<lparr>files := (files w1)(ledger_path \<mapsto>
                                          old @ fst written)\<rparr>)
                          in (case snd written of
                                None \<Rightarrow> (w2, Inr ())
                              | Some x \<Rightarrow> (w2, Inl x)))))))"

record http_response =
  status :: nat
  success :: bool
  message :: str

definition failed_to_save :: http_response where
  "failed_to_save =
     \<lparr>status = 500, success = False, message = lit ''Failed to save feedback''\<rparr>"

text \<open>
  The body of the request is any JSON value, or absent when \<^verbatim>\<open>get_json()\<close> raised. Every
  exception of the handler is answered with status 500: \<^verbatim>\<open>data.get\<close> on a value that is
  no dict, the cut \<^verbatim>\<open>page_url[:50]\<close> of the first print, \<^verbatim>\<open>len\<close> of a value without a
  length, and whatever \<^verbatim>\<open>save_user_feedback\<close> raises.
\<close>

definition submit_feedback :: "env \<Rightarrow> world \<Rightarrow> json option \<Rightarrow> world \<times> http_response" where
  "submit_feedback e w body =
     (case body of
        None \<Rightarrow> (w, failed_to_save)
      | Some (JObj data) \<Rightarrow>
          (let page_url = dict_field data (lit ''url'');
               content_background = dict_field data (lit ''content_background'');
               feedback_content = dict_field data (lit ''feedback_content'');
               feedback_type = dict_field data (lit ''feedback_type'');
               feedback_prove = dict_field data (lit ''feedback_prove'')
           in (case py_slice 50 page_url of
                 Inl x \<Rightarrow> (w, failed_to_save)
               | Inr _ \<Rightarrow>
                   if \<not> truthy feedback_type \<or>
                      feedback_type \<notin> set [JStr (lit ''fact''), JStr (lit ''suspicious_fact''),
                                             JStr (lit ''fake_fact'')]
                   then (w, \<lparr>status = 400, success = False,
                             message = lit ''Invalid feedback type''\<rparr>)
                   else if \<not> truthy feedback_content
                   then (w, \<lparr>status = 400, success = False, message =
                             lit ''Please provide the fact content (at least 10 characters)''\<rparr>)
                   else
                     (case py_len feedback_content of
                        Inl x \<Rightarrow> (w, failed_to_save)
                      | Inr n \<Rightarrow>
                          if n < 10
                          then (w, \<lparr>status = 400, success = False, message =
                                 lit ''Please provide the fact content (at least 10 characters)''\<rparr>)
                          else if \<not> truthy feedback_prove
                          then (w, \<lparr>status = 400, success = False, message =
                                 lit ''Please provide evidence/proof (at least 10 characters)''\<rparr>)
                          else
                            (case py_len feedback_prove of
                               Inl x \<Rightarrow> (w, failed_to_save)
                             | Inr m \<Rightarrow>
                                 if m < 10
                                 then (w, \<lparr>status = 400, success = False, message =
                                   lit ''Please provide evidence/proof (at least 10 characters)''\<rparr>)
                                 else
                                   (case save_user_feedback e w page_url content_background
                                           feedback_content feedback_type feedback_prove of
                                      (w1, Inl x) \<Rightarrow> (w1, failed_to_save)
                                    | (w1, Inr _) \<Rightarrow>
                                        (w1, \<lparr>status = 200, success = True,
                                              message = lit ''Thank you for your feedback!''\<rparr>))))))
      | Some _ \<Rightarrow> (w, failed_to_save))"

text \<open>A run of submissions, each in the environment of its own call.\<close>

fun submit_all :: "world \<Rightarrow> (env \<times> json) list \<Rightarrow> world \<times> http_response list" where
  "submit_all w [] = (w, [])"
| "submit_all w ((e, data) # rest) =
     (case submit_feedback e w (Some data) of
        (w1, r) \<Rightarrow> (case submit_all w1 rest of (w2, rs) \<Rightarrow> (w2, r # rs)))"

subsection \<open>save_website_content and extract_facts_claude\<close>

definition save_website_content :: "env \<Rightarrow> world \<Rightarrow> str \<Rightarrow> str \<Rightarrow> str \<Rightarrow> world" where
  "save_website_content e w text url content_type =
     (if io_fails e SiteLog then w
      else
        (let log_dir = (if content_type = lit ''summary'' then lit ''logs/websites_summary''
                        else if content_type = lit ''facts'' then lit ''logs/websites_facts''
                        else lit ''logs/websites_other'');
             filename = log_dir @ lit ''/website_'' @ now_strftime e @ lit ''.txt'';
             content = lit ''URL: '' @ url @ [10] @
                       lit ''Timestamp: '' @ now_iso e @ [10] @
                       lit ''Content Type: '' @ content_type @ [10] @
                       lit ''Content Length: '' @ str_of_nat (length text) @ lit '' chars'' @ [10] @
                       rule80 @ [10, 10] @ text
         in log_event (WriteFile filename) (w\<lparr>files := (files w)(filename \<mapsto> content)\<rparr>)))"

text \<open>
  One line of the oracle's numbered list: the fact after the number, or nothing when the
  line is not of that form.
\<close>

definition fact_of_line :: "env \<Rightarrow> str \<Rightarrow> str option" where
  "fact_of_line e l =
     (let line = py_strip l
      in if line \<noteq> [] \<and> length line > 3 \<and> isdigit e (hd line) \<and>
            contains (take 5 line) (lit ''. '')
         then (case after_first (lit ''. '') line of
                 Some fact_text \<Rightarrow> Some fact_text
               | None \<Rightarrow> Some line)
         else None)"

text \<open>The source returns a triple on two paths and a pair on the others.\<close>

datatype extract_result = Triple nat bool str | Pair nat pydict

definition error_result :: pydict where
  "error_result = report_dict (lit ''N/A'') (lit ''Analysis incomplete.'')"

definition haiku :: str where
  "haiku = lit ''us.anthropic.claude-3-haiku-20240307-v1:0''"

text \<open>
  Parsing the reply and calling the fact-check service raise nothing, so the inner
  \<^verbatim>\<open>except\<close> of the source is never entered.
\<close>

definition extract_facts_claude :: "env \<Rightarrow> world \<Rightarrow> str \<Rightarrow> str \<Rightarrow> world \<times> extract_result" where
  "extract_facts_claude e w text url =
     (let text_facts = take 15000 text;
          w1 = save_website_content e w text_facts url (lit ''facts'');
          w2 = log_event (OracleGenerate haiku (extract_system_prompt e) text_facts) w1
      in (case generate e haiku (extract_system_prompt e) text_facts of
            Inl x \<Rightarrow> (w2, Pair 0 error_result)
          | Inr response \<Rightarrow>
              if lit ''error'' \<in> dom response then (w2, Triple 0 False (lit ''N/A''))
              else
                (let result_text = py_strip (dict_get response (lit ''result'') [])
                 in if result_text = [] then (w2, Triple 0 False (lit ''N/A''))
                    else
                      (let facts = List.map_filter (fact_of_line e)
                                     (py_split 10 (py_strip result_text))
                       in (case call_factcheck_service e w2 facts url (lit ''clean'') of
                             (w3, fact_check_result) \<Rightarrow>
                               (w3, Pair (length facts) fact_check_result))))))"

section \<open>Vocabulary of the properties\<close>

text \<open>
  The label of a report, and the order of the three tiers that the claims speak of, from
  the favourable CLEAN over the cautionary SUSPICIOUS to the unfavourable FAKE. A label
  outside the three has no tier.
\<close>

definition label_of :: "pydict \<Rightarrow> str" where
  "label_of r = dict_get r (lit ''confidence'') (lit ''N/A'')"

definition tier :: "str \<Rightarrow> nat option" where
  "tier l = (if l = lit ''CLEAN'' then Some 0
             else if l = lit ''SUSPICIOUS'' then Some 1
             else if l = lit ''FAKE'' then Some 2 else None)"

definition less_favourable :: "str \<Rightarrow> str \<Rightarrow> bool" where
  "less_favourable a b =
     (case (tier a, tier b) of (Some i, Some j) \<Rightarrow> j < i | _ \<Rightarrow> False)"

text \<open>
  The reply of the conversion oracle to a court result, whether the conversion raises, and
  the labels that the reply names: those of its \<^verbatim>\<open>VERDICT:\<close> lines, among the three
  accepted, up to the first \<^verbatim>\<open>MESSAGE:\<close> line, where the loop of the source breaks.
\<close>

definition conversion_reply :: "env \<Rightarrow> pydict \<Rightarrow> error + pydict" where
  "conversion_reply e court_result =
     generate e (lit ''4o-mini'') (convert_system_prompt e)
       (user_query (dict_get court_result (lit ''confidence'') (lit ''N/A''))
                   (dict_get court_result (lit ''details'') []))"

definition conversion_fails :: "env \<Rightarrow> pydict \<Rightarrow> bool" where
  "conversion_fails e court_result =
     (case conversion_reply e court_result of
        Inl x \<Rightarrow> True
      | Inr response \<Rightarrow> response (lit ''result'') = None)"

fun named_labels :: "str list \<Rightarrow> str list" where
  "named_labels [] = []"
| "named_labels (line # rest) =
     (if startswith line (lit ''VERDICT:'') then
        (let verdict_value = py_strip (py_replace (lit ''VERDICT:'') [] line)
         in (if verdict_value \<in> set valid_labels then [verdict_value] else []) @
            named_labels rest)
      else if startswith line (lit ''MESSAGE:'') then []
      else named_labels rest)"

definition reply_labels :: "env \<Rightarrow> pydict \<Rightarrow> str list" where
  "reply_labels e court_result =
     (case conversion_reply e court_result of
        Inl x \<Rightarrow> []
      | Inr response \<Rightarrow>
          (case response (lit ''result'') of
             None \<Rightarrow> []
           | Some r \<Rightarrow> named_labels (py_split 10 (py_strip r))))"

text \<open>The events that a call added to the world, and the text that an oracle was given.\<close>

definition new_events :: "world \<Rightarrow> world \<Rightarrow> event list" where
  "new_events w w' = drop (length (events w)) (events w')"

fun oracle_text :: "event \<Rightarrow> str option" where
  "oracle_text (OracleHear c t) = Some t"
| "oracle_text (OracleGenerate m s q) = Some q"
| "oracle_text (ReadFile p) = None"
| "oracle_text (WriteFile p) = None"
| "oracle_text (AppendFile p) = None"

text \<open>The text of the ledger, and the record that one submission appends to it.\<close>

definition ledger_text :: "world \<Rightarrow> str" where
  "ledger_text w = (case files w ledger_path of None \<Rightarrow> [] | Some t \<Rightarrow> t)"

definition record_of :: "env \<times> json \<Rightarrow> str" where
  "record_of s =
     (case s of
        (e, JObj data) \<Rightarrow>
          ledger_record e (dict_field data (lit ''url''))
            (dict_field data (lit ''content_background''))
            (dict_field data (lit ''feedback_content''))
            (dict_field data (lit ''feedback_type''))
            (dict_field data (lit ''feedback_prove''))
      | _ \<Rightarrow> [])"

text \<open>
  The checks of the handler: a feedback type among the three strings, and a content and an
  evidence whose \<^verbatim>\<open>len\<close> is at least 10. A submission can be saved when its URL can be cut
  and its background is false or can be cut.
\<close>

definition long_enough :: "json \<Rightarrow> bool" where
  "long_enough v = (case py_len v of Inl x \<Rightarrow> False | Inr n \<Rightarrow> 10 \<le> n)"

definition valid_feedback :: "json \<Rightarrow> bool" where
  "valid_feedback body =
     (case body of
        JObj data \<Rightarrow>
          dict_field data (lit ''feedback_type'') \<in>
            set [JStr (lit ''fact''), JStr (lit ''suspicious_fact''), JStr (lit ''fake_fact'')] \<and>
          long_enough (dict_field data (lit ''feedback_content'')) \<and>
          long_enough (dict_field data (lit ''feedback_prove''))
      | _ \<Rightarrow> False)"

definition sliceable :: "json \<Rightarrow> bool" where
  "sliceable v = (case v of JStr s \<Rightarrow> True | JList xs \<Rightarrow> True | _ \<Rightarrow> False)"

definition savable :: "json \<Rightarrow> bool" where
  "savable body =
     (case body of
        JObj data \<Rightarrow>
          sliceable (dict_field data (lit ''url'')) \<and>
          (\<not> truthy (dict_field data (lit ''content_background'')) \<or>
           sliceable (dict_field data (lit ''content_background'')))
      | _ \<Rightarrow> False)"


definition snapshots :: "court \<Rightarrow> str list" where
  "snapshots c =
     concat (map (\<lambda>j. case reference j of
                        Some (SimpleTextStorage t) \<Rightarrow> [t]
                      | _ \<Rightarrow> []) (juries c))"

section \<open>Sample environments\<close>

definition plain_report :: "str \<Rightarrow> court_report" where
  "plain_report v = \<lparr>claims = [\<lparr>verdict = v, judge_reasoning = [], jury_votes = []\<rparr>]\<rparr>"

text \<open>A court that answers with a verdict outside the map, and a conversion that raises.\<close>

definition quiet_env :: env where
  "quiet_env =
     \<lparr>hear = (\<lambda>c t. Inr (plain_report (lit ''unclear''))),
      generate = (\<lambda>m s q. Inl (OracleError (lit ''timeout''))),
      io_fails = (\<lambda>x. False),
      now_strftime = lit ''20250101_000000_000000'',
      now_iso = lit ''2025-01-01T00:00:00'',
      now_iso2 = lit ''2025-01-01T00:00:01'',
      convert_system_prompt = [],
      extract_system_prompt = [],
      isdigit = (\<lambda>c. 48 \<le> c \<and> c \<le> 57),
      upper = (\<lambda>s. s),
      json_dump = (\<lambda>kv. concat (map fst kv)),
      py_repr = (\<lambda>v. lit ''[...]'')\<rparr>"

definition reply_env :: "str \<Rightarrow> env" where
  "reply_env r = quiet_env\<lparr>generate := (\<lambda>m s q. Inr [lit ''result'' \<mapsto> r])\<rparr>"

definition failing_env :: env where
  "failing_env = quiet_env\<lparr>hear := (\<lambda>c t. Inl (OracleError (lit ''timeout'')))\<rparr>"

definition tightening_reply :: str where
  "tightening_reply = lit ''VERDICT: FAKE'' @ [10] @ lit ''MESSAGE: Several claims are false.''"

definition relaxing_reply :: str where
  "relaxing_reply = lit ''VERDICT: CLEAN'' @ [10] @ lit ''MESSAGE: Content appears reliable.''"

definition initial_ledger :: str where
  "initial_ledger = lit ''--- Trusted User Feedback Database Initialized ---'' @ [10]"

definition fresh_world :: world where
  "fresh_world = \<lparr>files = [ledger_path \<mapsto> initial_ledger], events = []\<rparr>"

definition moon_url :: str where
  "moon_url = lit ''https://example.org/moon''"

definition moon_evidence :: str where
  "moon_evidence = lit ''See the lunar sample catalogue.''"

definition feedback :: "json \<Rightarrow> json \<Rightarrow> json \<Rightarrow> json \<Rightarrow> json" where
  "feedback url feedback_content feedback_type feedback_prove =
     JObj [(lit ''url'', url),
           (lit ''feedback_content'', feedback_content),
           (lit ''feedback_type'', feedback_type),
           (lit ''feedback_prove'', feedback_prove)]"




definition good_feedback :: json where
  "good_feedback =
     feedback (JStr moon_url) (JStr (lit ''The moon is made of rock.'')) (JStr (lit ''fact''))
       (JStr moon_evidence)"

definition later_env :: env where
  "later_env = quiet_env\<lparr>now_strftime := lit ''20250102_000000_000000'',
     now_iso := lit ''2025-01-02T00:00:00'', now_iso2 := lit ''2025-01-02T00:00:01''\<rparr>"

definition second_feedback :: json where
  "second_feedback =
     feedback (JStr (lit ''https://example.org/tides''))
       (JStr (lit ''The moon causes no tides.'')) (JStr (lit ''fake_fact''))
       (JStr (lit ''See any tide table.''))"

text \<open>
  One submission whose evidence ends with the text of a whole second record, up to the two
  line feeds that close every record.
\<close>

definition forged_feedback :: json where
  "forged_feedback =
     feedback (JStr moon_url) (JStr (lit ''The moon is made of rock.'')) (JStr (lit ''fact''))
       (JStr (moon_evidence @ [10, 10] @
              butlast (butlast (record_of (later_env, second_feedback)))))"

definition sample_fact :: str where
  "sample_fact = lit ''The moon is made of cheese''"

section \<open>String lemmas\<close>

lemma lit_eq_iff [simp]: "lit a = lit b \<longleftrightarrow> a = b"
  by (simp add: lit_def inj_of_char)

lemma lit_Nil [simp]: "lit [] = []"
  by (simp add: lit_def)

lemma lit_is_Nil [simp]: "lit s = [] \<longleftrightarrow> s = []"
  by (simp add: lit_def)

lemma lit_Cons: "lit (c # cs) = of_char c # lit cs"
  by (simp add: lit_def)

lemma length_lit [simp]: "length (lit s) = length s"
  by (simp add: lit_def)

section \<open>Reports and labels\<close>

lemma report_dict_confidence [simp]: "report_dict c d (lit ''confidence'') = Some c"
  by (simp add: report_dict_def)

lemma report_dict_details [simp]: "report_dict c d (lit ''details'') = Some d"
  by (simp add: report_dict_def)

lemma label_of_report_dict [simp]: "label_of (report_dict c d) = c"
  by (simp add: label_of_def dict_get_def)

lemma label_of_Some: "r (lit ''confidence'') = Some c \<Longrightarrow> label_of r = c"
  by (simp add: label_of_def dict_get_def)

lemma fallback_label [simp]: "label_of (fallback_result n) = lit ''CLEAN''"
  by (simp add: fallback_result_def)

lemma fallback_confidence [simp]:
  "fallback_result n (lit ''confidence'') = Some (lit ''CLEAN'')"
  by (simp add: fallback_result_def)

lemma verdict_map_valid:
  "dict_get verdict_map v (lit ''SUSPICIOUS'') \<in> set valid_labels"
  by (simp add: dict_get_def verdict_map_def valid_labels_def)

lemma verdict_map_unknown:
  "v \<notin> {lit ''supported'', lit ''suspicious'', lit ''refuted''} \<Longrightarrow>
   dict_get verdict_map v (lit ''SUSPICIOUS'') = lit ''SUSPICIOUS''"
  by (simp add: dict_get_def verdict_map_def)

lemma claim_report_confidence:
  "claim_report res (lit ''confidence'') =
     Some (dict_get verdict_map (verdict res) (lit ''SUSPICIOUS''))"
  by (simp add: claim_report_def Let_def)

lemma not_less_favourable_refl [simp]: "\<not> less_favourable a a"
  by (simp add: less_favourable_def split: option.splits)

section \<open>The conversion\<close>

lemma parse_reply_label:
  "fst (parse_reply ls fc d) = last (fc # named_labels ls)"
  by (induction ls arbitrary: fc d) (simp_all add: Let_def)

lemma named_labels_valid: "set (named_labels ls) \<subseteq> set valid_labels"
  by (induction ls) (auto simp: Let_def)

lemma reply_labels_valid: "set (reply_labels e court_result) \<subseteq> set valid_labels"
  using named_labels_valid
  by (auto simp: reply_labels_def split: sum.splits option.splits)

lemma convert_cases:
  "snd (convert_court_result_to_user_format e w court_result fact_count url) = court_result \<and>
     reply_labels e court_result = [] \<or>
   (\<exists>d. snd (convert_court_result_to_user_format e w court_result fact_count url) =
      report_dict (last (label_of court_result # reply_labels e court_result)) d)"
proof (cases "conversion_reply e court_result")
  case (Inl x)
  then show ?thesis
    by (simp add: convert_court_result_to_user_format_def reply_labels_def conversion_reply_def
        Let_def)
next
  case (Inr response)
  show ?thesis
  proof (cases "response (lit ''result'')")
    case None
    with Inr show ?thesis
      by (simp add: convert_court_result_to_user_format_def reply_labels_def
          conversion_reply_def Let_def)
  next
    case (Some r)
    obtain fc d where p:
      "parse_reply (py_split 10 (py_strip r)) (label_of court_result) (py_strip r) = (fc, d)"
      by (cases "parse_reply (py_split 10 (py_strip r)) (label_of court_result) (py_strip r)")
    have "fc = last (label_of court_result # named_labels (py_split 10 (py_strip r)))"
      using parse_reply_label [of "py_split 10 (py_strip r)" "label_of court_result" "py_strip r"] p
      by simp
    with Inr Some p show ?thesis
      by (auto simp: convert_court_result_to_user_format_def reply_labels_def
          conversion_reply_def Let_def label_of_def)
  qed
qed

lemma convert_label:
  "label_of (snd (convert_court_result_to_user_format e w court_result fact_count url)) =
   last (label_of court_result # reply_labels e court_result)"
  using convert_cases [of e w court_result fact_count url] by auto

lemma convert_confidence:
  assumes "court_result (lit ''confidence'') = Some b"
  shows "snd (convert_court_result_to_user_format e w court_result fact_count url)
           (lit ''confidence'') =
         Some (last (b # reply_labels e court_result))"
  using convert_cases [of e w court_result fact_count url] assms
    label_of_Some [of court_result b]
  by auto

lemma last_valid:
  "b \<in> set valid_labels \<Longrightarrow> last (b # reply_labels e court_result) \<in> set valid_labels"
  using reply_labels_valid [of e court_result] last_in_set [of "b # reply_labels e court_result"]
  by auto

lemma reply_labels_reply_env:
  "reply_labels (reply_env r) court_result = named_labels (py_split 10 (py_strip r))"
  by (simp add: reply_labels_def conversion_reply_def reply_env_def quiet_env_def)

lemma named_labels_tightening:
  "named_labels (py_split 10 (py_strip tightening_reply)) = [lit ''FAKE'']"
  by (simp add: tightening_reply_def py_strip_def isspace_def startswith_def valid_labels_def
      lit_Cons)

lemma named_labels_relaxing:
  "named_labels (py_split 10 (py_strip relaxing_reply)) = [lit ''CLEAN'']"
  by (simp add: relaxing_reply_def py_strip_def isspace_def startswith_def valid_labels_def
      lit_Cons)

section \<open>The court and the fact-check service\<close>

lemma verify_text_cases:
  assumes "verify_text e w text = (w', Inr court_result)"
  shows "\<exists>c report. hear e c (take 12000 text) = Inr report \<and>
           (claims report = [] \<and>
              court_result =
                report_dict (lit ''N/A'') (lit ''No claims were processed by the court.'') \<or>
            (\<exists>res rest. claims report = res # rest \<and> court_result = claim_report res))"
  using assms
  by (auto simp: verify_text_def Let_def split: prod.splits sum.splits list.splits)

lemma service_with_court_result:
  assumes "facts_list \<noteq> []" and "\<not> io_fails e FactLog"
    and "verify_text e (write_fact_log e w url facts_list) (facts_text facts_list) =
           (w2, Inr court_result)"
    and "court_result (lit ''confidence'') = Some b"
  shows "snd (call_factcheck_service e w facts_list url test_mode) (lit ''confidence'') =
           Some (last (b # reply_labels e court_result))"
proof -
  obtain w3 r where c: "convert_court_result_to_user_format e w2 court_result
      (length facts_list) url = (w3, r)"
    by (cases "convert_court_result_to_user_format e w2 court_result (length facts_list) url")
  with convert_confidence [of court_result b e w2 "length facts_list" url] assms(4)
  have "r (lit ''confidence'') = Some (last (b # reply_labels e court_result))"
    by simp
  with c assms show ?thesis
    by (simp add: call_factcheck_service_def Let_def)
qed

lemma service_with_court_failure:
  assumes "facts_list \<noteq> []" and "\<not> io_fails e FactLog"
    and "isl (snd (verify_text e (write_fact_log e w url facts_list) (facts_text facts_list)))"
  shows "snd (call_factcheck_service e w facts_list url test_mode) =
           fallback_result (length facts_list)"
  using assms
  by (auto simp: call_factcheck_service_def Let_def split: prod.splits sum.splits)

lemma service_has_label:
  "\<exists>l. snd (call_factcheck_service e w facts_list url test_mode) (lit ''confidence'') = Some l"
  by (auto simp: call_factcheck_service_def Let_def split: prod.splits sum.splits option.splits)

lemma fact_log_keeps_ledger [simp]:
  "files (write_fact_log e w url facts_list) ledger_path = files w ledger_path"
  by (simp add: write_fact_log_def log_event_def ledger_path_def lit_Cons Let_def)

lemma verify_text_failing: "isl (snd (verify_text failing_env w text))"
  by (simp add: verify_text_def failing_env_def Let_def split: prod.splits sum.splits)

lemma universal_newlines_plain:
  "10 \<notin> set s \<Longrightarrow> 13 \<notin> set s \<Longrightarrow> universal_newlines (s @ [10]) = s @ [10]"
  by (induction s rule: universal_newlines.induct) auto

lemma universal_newlines_initial: "universal_newlines initial_ledger = initial_ledger"
  unfolding initial_ledger_def
  by (rule universal_newlines_plain) (auto simp: lit_def)

lemma build_court_fresh:
  "build_court quiet_env fresh_world =
     (log_event (ReadFile ledger_path) fresh_world,
      Inr \<lparr>juries = [jury_gpt, jury_gemini, jury_web, jury_rag, jury_feedback initial_ledger],
           quorum = 3, concurrency_limit = 5\<rparr>)"
  by (simp add: build_court_def read_ledger_def quiet_env_def fresh_world_def
      universal_newlines_initial)

section \<open>The feedback ledger\<close>

lemma backup_path_not_ledger:
  "lit ''fact_feedback/feedback_'' @ ts @ lit ''.txt'' \<noteq> ledger_path"
  by (simp add: ledger_path_def lit_Cons)

lemma py_slice_sliceable: "py_slice n v = Inr x \<Longrightarrow> sliceable v"
  by (cases v) (simp_all add: sliceable_def)

lemma sliceable_py_slice: "sliceable v \<Longrightarrow> \<exists>x. py_slice n v = Inr x"
  by (cases v) (simp_all add: sliceable_def)

lemma long_enough_truthy: "long_enough v \<Longrightarrow> truthy v"
  by (cases v) (auto simp: long_enough_def)

lemma long_enough_len: "long_enough v \<longleftrightarrow> (\<exists>n. py_len v = Inr n \<and> 10 \<le> n)"
  by (cases "py_len v") (simp_all add: long_enough_def)

lemma type_line_valid:
  "ft \<in> set [JStr (lit ''fact''), JStr (lit ''suspicious_fact''), JStr (lit ''fake_fact'')] \<Longrightarrow>
   \<exists>t. type_line e ft = Inr t"
  by (auto simp: type_line_def)

lemma write_chunks_complete:
  assumes "ft \<in> set [JStr (lit ''fact''), JStr (lit ''suspicious_fact''), JStr (lit ''fake_fact'')]"
    and "\<not> truthy cb \<or> sliceable cb"
  shows "snd (write_chunks (record_chunks e url cb fc ft fp)) = None"
proof -
  obtain t where t: "type_line e ft = Inr t"
    using type_line_valid [OF assms(1)] by blast
  show ?thesis
  proof (cases "truthy cb")
    case False
    with t show ?thesis
      by (simp add: record_chunks_def split: prod.splits)
  next
    case True
    with assms(2) obtain x where "py_slice 300 cb = Inr x"
      using sliceable_py_slice by blast
    with t True show ?thesis
      by (simp add: record_chunks_def split: prod.splits)
  qed
qed

lemma ledger_record_header:
  "\<exists>rest. ledger_record e url cb fc ft fp = record_header @ now_iso2 e @ [10] @ rule80 @ rest"
  by (simp add: ledger_record_def record_chunks_def record_header_def split: prod.splits)

lemma save_user_feedback_ok:
  assumes "save_user_feedback e w url cb fc ft fp = (w', Inr u)"
  shows "ledger_text w' = ledger_text w @ ledger_record e url cb fc ft fp"
    and "files w' ledger_path = Some (ledger_text w @ ledger_record e url cb fc ft fp)"
    and "\<not> truthy cb \<or> sliceable cb"
  using assms backup_path_not_ledger [of "now_strftime e"]
  by (auto simp: save_user_feedback_def Let_def ledger_text_def log_event_def ledger_record_def
      split: if_splits sum.splits option.splits dest: py_slice_sliceable)

lemma save_user_feedback_fails_early:
  assumes "truthy cb" and "\<not> sliceable cb"
  shows "fst (save_user_feedback e w url cb fc ft fp) = w"
  using assms py_slice_sliceable [of 500 cb]
  by (auto simp: save_user_feedback_def Let_def split: sum.splits)


lemma submit_not_object:
  "(\<forall>data. body \<noteq> Some (JObj data)) \<Longrightarrow> submit_feedback e w body = (w, failed_to_save)"
  by (auto simp: submit_feedback_def split: option.splits json.splits)

lemma not_success_failed [simp]: "\<not> success failed_to_save" "status failed_to_save = 500"
  by (simp_all add: failed_to_save_def)

lemma submit_success:
  assumes "success (snd (submit_feedback e w body))"
  shows "\<exists>data. body = Some data \<and> valid_feedback data \<and> savable data \<and>
           status (snd (submit_feedback e w body)) = 200 \<and>
           ledger_text (fst (submit_feedback e w body)) = ledger_text w @ record_of (e, data)"
proof -
  obtain kvs where b: "body = Some (JObj kvs)"
    using assms submit_not_object [of body e w] by (cases "\<exists>data. body = Some (JObj data)") auto
  let ?url = "dict_field kvs (lit ''url'')"
  let ?cb = "dict_field kvs (lit ''content_background'')"
  let ?fc = "dict_field kvs (lit ''feedback_content'')"
  let ?ft = "dict_field kvs (lit ''feedback_type'')"
  let ?fp = "dict_field kvs (lit ''feedback_prove'')"
  from assms b have u: "sliceable ?url"
    by (auto simp: submit_feedback_def Let_def split: sum.splits dest: py_slice_sliceable)
  then obtain x where x: "py_slice 50 ?url = Inr x"
    using sliceable_py_slice by blast
  from assms b x have t: "?ft \<in> set [JStr (lit ''fact''), JStr (lit ''suspicious_fact''),
      JStr (lit ''fake_fact'')]"
    by (auto simp: submit_feedback_def Let_def split: if_splits)
  from assms b x t have c: "long_enough ?fc"
    by (auto simp: submit_feedback_def Let_def long_enough_def split: if_splits sum.splits)
  then obtain n where n: "py_len ?fc = Inr n" "10 \<le> n" "truthy ?fc"
    using long_enough_len long_enough_truthy by blast
  from assms b x t n have p: "long_enough ?fp"
    by (auto simp: submit_feedback_def Let_def long_enough_def split: if_splits sum.splits)
  then obtain m where m: "py_len ?fp = Inr m" "10 \<le> m" "truthy ?fp"
    using long_enough_len long_enough_truthy by blast
  obtain w1 r where s: "save_user_feedback e w ?url ?cb ?fc ?ft ?fp = (w1, r)"
    by (cases "save_user_feedback e w ?url ?cb ?fc ?ft ?fp")
  have tt: "truthy ?ft" using t by auto
  from assms b x t tt n m s have r: "r = Inr ()" "submit_feedback e w body =
      (w1, \<lparr>status = 200, success = True, message = lit ''Thank you for your feedback!''\<rparr>)"
    by (auto simp: submit_feedback_def Let_def split: sum.splits)
  from s r(1) have l: "ledger_text w1 = ledger_text w @ ledger_record e ?url ?cb ?fc ?ft ?fp"
    "\<not> truthy ?cb \<or> sliceable ?cb"
    using save_user_feedback_ok [of e w ?url ?cb ?fc ?ft ?fp w1 "()"] by simp_all
  show ?thesis
    using b u t c p l r(2)
    by (simp add: valid_feedback_def savable_def record_of_def)
qed



lemma submit_accepts:
  assumes "valid_feedback data" and "savable data" and "\<forall>op. \<not> io_fails e op"
  shows "success (snd (submit_feedback e w (Some data)))"
proof -
  from assms(1) obtain kvs where b: "data = JObj kvs"
    by (cases data) (simp_all add: valid_feedback_def)
  let ?url = "dict_field kvs (lit ''url'')"
  let ?cb = "dict_field kvs (lit ''content_background'')"
  let ?fc = "dict_field kvs (lit ''feedback_content'')"
  let ?ft = "dict_field kvs (lit ''feedback_type'')"
  let ?fp = "dict_field kvs (lit ''feedback_prove'')"
  from assms(1) b have t: "?ft \<in> set [JStr (lit ''fact''), JStr (lit ''suspicious_fact''),
      JStr (lit ''fake_fact'')]" and c: "long_enough ?fc" and p: "long_enough ?fp"
    by (simp_all add: valid_feedback_def)
  from assms(2) b have u: "sliceable ?url" and k: "\<not> truthy ?cb \<or> sliceable ?cb"
    by (simp_all add: savable_def)
  obtain x where x: "py_slice 50 ?url = Inr x"
    using u sliceable_py_slice by blast
  obtain n where n: "py_len ?fc = Inr n" "10 \<le> n" "truthy ?fc"
    using c long_enough_len long_enough_truthy by blast
  obtain m where m: "py_len ?fp = Inr m" "10 \<le> m" "truthy ?fp"
    using p long_enough_len long_enough_truthy by blast
  have tt: "truthy ?ft" using t by auto
  have w: "snd (write_chunks (record_chunks e ?url ?cb ?fc ?ft ?fp)) = None"
    by (rule write_chunks_complete [OF t k])
  have "\<exists>w1. save_user_feedback e w ?url ?cb ?fc ?ft ?fp = (w1, Inr ())"
  proof (cases "truthy ?cb")
    case False
    with assms(3) w show ?thesis
      by (simp add: save_user_feedback_def Let_def)
  next
    case True
    with k obtain y where "py_slice 500 ?cb = Inr y"
      using sliceable_py_slice by blast
    with True assms(3) w show ?thesis
      by (simp add: save_user_feedback_def Let_def)
  qed
  then obtain w1 where "save_user_feedback e w ?url ?cb ?fc ?ft ?fp = (w1, Inr ())" ..
  with b x t tt n m show ?thesis
    by (simp add: submit_feedback_def Let_def)
qed

lemma dict_field_feedback:
  "dict_field [(lit ''url'', u), (lit ''feedback_content'', c), (lit ''feedback_type'', t),
      (lit ''feedback_prove'', p)] (lit ''url'') = u"
  "dict_field [(lit ''url'', u), (lit ''feedback_content'', c), (lit ''feedback_type'', t),
      (lit ''feedback_prove'', p)] (lit ''content_background'') = JStr []"
  "dict_field [(lit ''url'', u), (lit ''feedback_content'', c), (lit ''feedback_type'', t),
      (lit ''feedback_prove'', p)] (lit ''feedback_content'') = c"
  "dict_field [(lit ''url'', u), (lit ''feedback_content'', c), (lit ''feedback_type'', t),
      (lit ''feedback_prove'', p)] (lit ''feedback_type'') = t"
  "dict_field [(lit ''url'', u), (lit ''feedback_content'', c), (lit ''feedback_type'', t),
      (lit ''feedback_prove'', p)] (lit ''feedback_prove'') = p"
  by (simp_all add: dict_field_def)

lemma valid_feedback_feedback:
  "valid_feedback (feedback u c t p) \<longleftrightarrow>
     t \<in> set [JStr (lit ''fact''), JStr (lit ''suspicious_fact''), JStr (lit ''fake_fact'')] \<and>
     long_enough c \<and> long_enough p"
  by (simp add: valid_feedback_def feedback_def dict_field_feedback)

lemma savable_feedback: "savable (feedback u c t p) \<longleftrightarrow> sliceable u"
  by (simp add: savable_def feedback_def dict_field_feedback)


lemma record_of_feedback:
  "record_of (e, feedback u c t p) = ledger_record e u (JStr []) c t p"
  by (simp add: record_of_def feedback_def dict_field_feedback)

lemma quiet_env_no_fault [simp]: "\<not> io_fails quiet_env op"
  by (simp add: quiet_env_def)

lemma later_env_no_fault [simp]: "\<not> io_fails later_env op"
  by (simp add: later_env_def quiet_env_def)

lemma length_moon_evidence [simp]: "10 \<le> length moon_evidence"
  by (simp add: moon_evidence_def)




lemma valid_good_feedback: "valid_feedback good_feedback" "savable good_feedback"
  by (simp_all add: good_feedback_def valid_feedback_feedback savable_feedback long_enough_def
      sliceable_def)

lemma valid_second_feedback: "valid_feedback second_feedback" "savable second_feedback"
  by (simp_all add: second_feedback_def valid_feedback_feedback savable_feedback long_enough_def
      sliceable_def)

lemma valid_forged_feedback: "valid_feedback forged_feedback" "savable forged_feedback"
  using length_moon_evidence
  by (simp_all add: forged_feedback_def valid_feedback_feedback savable_feedback long_enough_def
      sliceable_def del: length_moon_evidence)

lemma ledger_text_fresh [simp]: "ledger_text fresh_world = initial_ledger"
  by (simp add: ledger_text_def fresh_world_def)

lemma record_starts_with_header:
  "startswith (record_of (e, JObj kvs)) record_header"
  using ledger_record_header [of e "dict_field kvs (lit ''url'')"
      "dict_field kvs (lit ''content_background'')" "dict_field kvs (lit ''feedback_content'')"
      "dict_field kvs (lit ''feedback_type'')" "dict_field kvs (lit ''feedback_prove'')"]
  by (auto simp: record_of_def startswith_def)

lemma submit_all_length: "submit_all w subs = (w', rs) \<Longrightarrow> length rs = length subs"
  by (induction subs arbitrary: w w' rs) (auto split: prod.splits)

lemma submit_all_ledger:
  assumes "submit_all w subs = (w', rs)" and "\<forall>r \<in> set rs. success r"
  shows "ledger_text w' = ledger_text w @ concat (map record_of subs) \<and>
         (\<forall>s \<in> set subs. valid_feedback (snd s)) \<and>
         (subs \<noteq> [] \<longrightarrow> files w' ledger_path = Some (ledger_text w'))"
  using assms
proof (induction subs arbitrary: w w' rs)
  case Nil
  then show ?case by simp
next
  case (Cons s subs)
  obtain e data where s: "s = (e, data)" by (cases s)
  obtain w1 r where one: "submit_feedback e w (Some data) = (w1, r)"
    by (cases "submit_feedback e w (Some data)")
  obtain w2 rs' where more: "submit_all w1 subs = (w2, rs')"
    by (cases "submit_all w1 subs")
  from Cons.prems(1) s one more have eq: "w' = w2" "rs = r # rs'"
    by simp_all
  with Cons.prems(2) have ok: "success r" "\<forall>r \<in> set rs'. success r"
    by simp_all
  from ok(1) one have v: "valid_feedback data"
    and l: "ledger_text w1 = ledger_text w @ record_of (e, data)"
    using submit_success [of e w "Some data"] by simp_all
  have f: "files w1 ledger_path = Some (ledger_text w1)"
    using l v ok(1) one
    by (auto simp: ledger_text_def submit_feedback_def Let_def valid_feedback_def
        save_user_feedback_def log_event_def
        split: json.splits sum.splits if_splits option.splits prod.splits)
  note ih = Cons.IH [OF more ok(2)]
  have "subs = [] \<Longrightarrow> w2 = w1" using more by simp
  with ih f have "files w2 ledger_path = Some (ledger_text w2)"
    by (cases subs) auto
  with ih l v eq s show ?case by simp
qed

lemma submit_all_one:
  "submit_all w [(e1, d1)] =
     (fst (submit_feedback e1 w (Some d1)), [snd (submit_feedback e1 w (Some d1))])"
  by (simp split: prod.splits)

lemma submit_all_two:
  "submit_all w [(e1, d1), (e2, d2)] =
     (fst (submit_feedback e2 (fst (submit_feedback e1 w (Some d1))) (Some d2)),
      [snd (submit_feedback e1 w (Some d1)),
       snd (submit_feedback e2 (fst (submit_feedback e1 w (Some d1))) (Some d2))])"
  by (simp split: prod.splits)

lemma forged_record:
  "record_of (quiet_env, forged_feedback) =
     record_of (quiet_env, good_feedback) @ record_of (later_env, second_feedback)"
  by (simp add: forged_feedback_def good_feedback_def second_feedback_def record_of_feedback
      ledger_record_def record_chunks_def type_line_def fmt_def butlast_append
      split: prod.splits)

lemma read_ledger_file:
  "files w ledger_path = Some t \<Longrightarrow> \<not> io_fails e ReadLedger \<Longrightarrow>
   snd (read_ledger e w) = Inr (universal_newlines t)"
  by (simp add: read_ledger_def)

section \<open>Events\<close>

lemma new_events_log1 [simp]: "new_events w (log_event ev w) = [ev]"
  by (simp add: new_events_def log_event_def)

lemma new_events_log2 [simp]:
  "new_events w (log_event ev2 (log_event ev1 w)) = [ev1, ev2]"
  by (simp add: new_events_def log_event_def)

lemma new_events_same [simp]: "new_events w w = []"
  by (simp add: new_events_def)

lemma new_events_append: "events w' = events w @ xs \<Longrightarrow> new_events w w' = xs"
  by (simp add: new_events_def)

lemma build_court_ok:
  assumes "build_court e w = (w1, Inr c)"
  shows "w1 = log_event (ReadFile ledger_path) w"
    and "c = \<lparr>juries = [jury_gpt, jury_gemini, jury_web, jury_rag,
                         jury_feedback (universal_newlines (ledger_text w))],
               quorum = 3, concurrency_limit = 5\<rparr>"
    and "files w ledger_path = Some (ledger_text w)"
  using assms
  by (auto simp: build_court_def read_ledger_def ledger_text_def
      split: if_splits option.splits)

lemma snapshots_court [simp]:
  "snapshots \<lparr>juries = [jury_gpt, jury_gemini, jury_web, jury_rag, jury_feedback t],
              quorum = q, concurrency_limit = n\<rparr> = [t]"
  by (simp add: snapshots_def jury_gpt_def jury_gemini_def jury_web_def jury_rag_def
      jury_feedback_def)

lemma ledger_text_log_event [simp]: "ledger_text (log_event ev w) = ledger_text w"
  by (simp add: ledger_text_def log_event_def)

lemma verify_text_after_build:
  assumes "build_court e w = (w1, Inr c)"
  shows "fst (verify_text e w text) = log_event (OracleHear c (take 12000 text)) w1"
  using assms
  by (simp add: verify_text_def Let_def split: sum.splits list.splits)

lemma universal_newlines_other:
  "filter (\<lambda>c. c \<noteq> 10 \<and> c \<noteq> 13) (universal_newlines s) =
   filter (\<lambda>c. c \<noteq> 10 \<and> c \<noteq> 13) s"
  by (induction s rule: universal_newlines.induct) auto

lemma universal_newlines_grows:
  assumes "x \<in> set r" and "x \<noteq> 10" and "x \<noteq> 13"
  shows "universal_newlines (a @ r) \<noteq> universal_newlines a"
proof
  assume "universal_newlines (a @ r) = universal_newlines a"
  then have "filter (\<lambda>c. c \<noteq> 10 \<and> c \<noteq> 13) (universal_newlines (a @ r)) =
             filter (\<lambda>c. c \<noteq> 10 \<and> c \<noteq> 13) (universal_newlines a)"
    by simp
  then have "filter (\<lambda>c. c \<noteq> 10 \<and> c \<noteq> 13) r = []"
    by (simp add: universal_newlines_other)
  with assms show False
    by (auto simp: filter_empty_conv)
qed

lemma ledger_record_has_rule: "61 \<in> set (ledger_record e url cb fc ft fp)"
  using ledger_record_header [of e url cb fc ft fp]
  by (auto simp: rule80_def)

lemma save_user_feedback_quiet:
  "\<exists>w2. save_user_feedback quiet_env w (JStr url) (JStr []) (JStr fc) (JStr (lit ''fact''))
          (JStr fp) = (w2, Inr ())"
  by (simp add: save_user_feedback_def Let_def record_chunks_def type_line_def
      split: prod.splits)

lemma build_court_quiet:
  "files w ledger_path = Some t \<Longrightarrow>
   build_court quiet_env w =
     (log_event (ReadFile ledger_path) w,
      Inr \<lparr>juries = [jury_gpt, jury_gemini, jury_web, jury_rag,
                      jury_feedback (universal_newlines t)],
           quorum = 3, concurrency_limit = 5\<rparr>)"
  by (simp add: build_court_def read_ledger_def)

lemma verify_text_events:
  "\<exists>xs. events (fst (verify_text e w text)) = events w @ xs \<and>
        (\<forall>ev \<in> set xs. oracle_text ev \<in> {None, Some (take 12000 text)})"
  by (auto simp: verify_text_def build_court_def read_ledger_def Let_def log_event_def
      split: sum.splits list.splits option.splits)

lemma convert_events:
  "\<exists>xs. events (fst (convert_court_result_to_user_format e w court_result n url)) =
          events w @ xs"
  by (auto simp: convert_court_result_to_user_format_def Let_def log_event_def
      split: sum.splits option.splits prod.splits)

lemma write_fact_log_events:
  "\<exists>xs. events (write_fact_log e w url facts_list) = events w @ xs"
  by (simp add: write_fact_log_def Let_def log_event_def)

lemma service_events:
  "\<exists>xs. events (fst (call_factcheck_service e w facts_list url test_mode)) = events w @ xs"
proof -
  let ?w1 = "write_fact_log e w url facts_list"
  obtain a where a: "events ?w1 = events w @ a"
    using write_fact_log_events by blast
  obtain w2 r where v: "verify_text e ?w1 (facts_text facts_list) = (w2, r)"
    by (cases "verify_text e ?w1 (facts_text facts_list)")
  obtain b where b: "events w2 = events ?w1 @ b"
    using verify_text_events [of e ?w1 "facts_text facts_list"] v by auto
  show ?thesis
  proof (cases r)
    case (Inl x)
    with a b v show ?thesis
      by (auto simp: call_factcheck_service_def Let_def)
  next
    case (Inr court_result)
    obtain w3 u where c: "convert_court_result_to_user_format e w2 court_result
        (length facts_list) url = (w3, u)"
      by (cases "convert_court_result_to_user_format e w2 court_result (length facts_list) url")
    obtain d where "events w3 = events w2 @ d"
      using convert_events [of e w2 court_result "length facts_list" url] c by auto
    with a b v Inr c show ?thesis
      by (auto simp: call_factcheck_service_def Let_def split: option.splits)
  qed
qed

lemma site_log_events:
  "\<exists>pre. events (save_website_content e w text url content_type) = events w @ pre \<and>
          (\<forall>ev \<in> set pre. oracle_text ev = None)"
  by (simp add: save_website_content_def Let_def log_event_def)

lemma extract_events:
  "\<exists>pre post. events (fst (extract_facts_claude e w text url)) =
       events w @ pre @
         [OracleGenerate haiku (extract_system_prompt e) (take 15000 text)] @ post \<and>
     (\<forall>ev \<in> set pre. oracle_text ev = None)"
proof -
  let ?t = "take 15000 text"
  let ?w1 = "save_website_content e w ?t url (lit ''facts'')"
  let ?g = "OracleGenerate haiku (extract_system_prompt e) ?t"
  let ?w2 = "log_event ?g ?w1"
  obtain pre where pre: "events ?w1 = events w @ pre" "\<forall>ev \<in> set pre. oracle_text ev = None"
    using site_log_events by blast
  then have w2: "events ?w2 = events w @ pre @ [?g]"
    by (simp add: log_event_def)
  have "fst (extract_facts_claude e w text url) = ?w2 \<or>
        (\<exists>facts. fst (extract_facts_claude e w text url) =
           fst (call_factcheck_service e ?w2 facts url (lit ''clean'')))"
    by (auto simp: extract_facts_claude_def Let_def split: sum.splits prod.splits)
      (metis fst_conv)
  then show ?thesis
  proof
    assume "fst (extract_facts_claude e w text url) = ?w2"
    with w2 pre(2) show ?thesis
      by (intro exI [of _ pre] exI [of _ "[]"]) simp
  next
    assume "\<exists>facts. fst (extract_facts_claude e w text url) =
           fst (call_factcheck_service e ?w2 facts url (lit ''clean''))"
    then obtain facts where f: "fst (extract_facts_claude e w text url) =
           fst (call_factcheck_service e ?w2 facts url (lit ''clean''))" ..
    obtain post where "events (fst (call_factcheck_service e ?w2 facts url (lit ''clean''))) =
        events ?w2 @ post"
      using service_events by blast
    with f w2 pre(2) show ?thesis
      by (intro exI [of _ pre] exI [of _ post]) simp
  qed
qed

section \<open>The claims\<close>

text \<open>
  C1 (amended). \<^verbatim>\<open>call_factcheck_service\<close> always returns a report with a label, never an
  exception. When the facts are logged and the Model Court round raises, the report is the
  fallback of the source: its label is CLEAN, not SUSPICIOUS, and its details say that the
  court was unavailable.
\<close>

theorem service_fallback_is_clean:
  "(\<exists>l. snd (call_factcheck_service e w facts_list url test_mode) (lit ''confidence'') = Some l) \<and>
   (facts_list \<noteq> [] \<and> \<not> io_fails e FactLog \<and>
    isl (snd (verify_text e (write_fact_log e w url facts_list) (facts_text facts_list))) \<longrightarrow>
    snd (call_factcheck_service e w facts_list url test_mode) =
      fallback_result (length facts_list) \<and>
    label_of (snd (call_factcheck_service e w facts_list url test_mode)) = lit ''CLEAN'')"
  using service_has_label [of e w facts_list url test_mode]
    service_with_court_failure [of facts_list e w url test_mode]
  by auto

text \<open>The theorem at a court whose hearing raises.\<close>

theorem service_fallback_is_clean_witness:
  "isl (snd (verify_text failing_env (write_fact_log failing_env fresh_world [] [sample_fact])
         (facts_text [sample_fact]))) \<and>
   label_of (snd (call_factcheck_service failing_env fresh_world [sample_fact] []
      (lit ''clean''))) = lit ''CLEAN''"
proof -
  have f: "isl (snd (verify_text failing_env
      (write_fact_log failing_env fresh_world [] [sample_fact]) (facts_text [sample_fact])))"
    by (rule verify_text_failing)
  have g: "\<not> io_fails failing_env FactLog"
    by (simp add: failing_env_def quiet_env_def)
  show ?thesis
    using service_fallback_is_clean [of failing_env fresh_world "[sample_fact]" "[]"
        "lit ''clean''"] f g
    by simp
qed

text \<open>
  C1 as stated fails: the round of the court raises, and the label of the report is not
  SUSPICIOUS.
\<close>

theorem service_fallback_not_suspicious:
  "isl (snd (verify_text failing_env (write_fact_log failing_env fresh_world [] [sample_fact])
         (facts_text [sample_fact]))) \<and>
   label_of (snd (call_factcheck_service failing_env fresh_world [sample_fact] []
      (lit ''clean''))) \<noteq> lit ''SUSPICIOUS''"
proof -
  have f: "isl (snd (verify_text failing_env
      (write_fact_log failing_env fresh_world [] [sample_fact]) (facts_text [sample_fact])))"
    by (rule verify_text_failing)
  have "snd (call_factcheck_service failing_env fresh_world [sample_fact] [] (lit ''clean'')) =
      fallback_result (length [sample_fact])"
    using f by (intro service_with_court_failure) (simp_all add: failing_env_def quiet_env_def)
  with f show ?thesis by simp
qed

text \<open>
  C2 (amended). The label that \<^verbatim>\<open>convert_court_result_to_user_format\<close> returns is the last
  of the baseline label followed by the labels that the reply of the conversion oracle names.
  The code accepts any of the three labels from the oracle, so the final label is no less
  favourable than the baseline whenever the reply names no less favourable label.
\<close>

theorem override_follows_reply:
  "label_of (snd (convert_court_result_to_user_format e w court_result fact_count url)) =
     last (label_of court_result # reply_labels e court_result) \<and>
   ((\<forall>v \<in> set (reply_labels e court_result). \<not> less_favourable v (label_of court_result)) \<longrightarrow>
    \<not> less_favourable
        (label_of (snd (convert_court_result_to_user_format e w court_result fact_count url)))
        (label_of court_result))"
proof -
  let ?ls = "reply_labels e court_result"
  have "last (label_of court_result # ?ls) \<in> set (label_of court_result # ?ls)"
    by (rule last_in_set) simp
  then show ?thesis
    by (auto simp: convert_label)
qed

text \<open>The theorem at a reply that relaxes SUSPICIOUS to CLEAN.\<close>

theorem override_follows_reply_witness:
  "reply_labels (reply_env relaxing_reply)
     (report_dict (lit ''SUSPICIOUS'') (lit ''Jury Votes:'')) = [lit ''CLEAN''] \<and>
   \<not> less_favourable (lit ''CLEAN'') (lit ''SUSPICIOUS'') \<and>
   label_of (snd (convert_court_result_to_user_format (reply_env relaxing_reply) fresh_world
      (report_dict (lit ''SUSPICIOUS'') (lit ''Jury Votes:'')) 1 [])) = lit ''CLEAN'' \<and>
   \<not> less_favourable
       (label_of (snd (convert_court_result_to_user_format (reply_env relaxing_reply)
          fresh_world (report_dict (lit ''SUSPICIOUS'') (lit ''Jury Votes:'')) 1 [])))
       (lit ''SUSPICIOUS'')"
  using override_follows_reply [of "reply_env relaxing_reply" fresh_world
      "report_dict (lit ''SUSPICIOUS'') (lit ''Jury Votes:'')" 1 "[]"]
  by (simp add: reply_labels_reply_env named_labels_relaxing less_favourable_def tier_def)

text \<open>
  C2 as stated fails: the court says CLEAN, the reply of the oracle names FAKE, and the
  final label is less favourable than the baseline.
\<close>

theorem override_can_tighten:
  "less_favourable
     (label_of (snd (convert_court_result_to_user_format (reply_env tightening_reply) fresh_world
        (report_dict (lit ''CLEAN'') (lit ''Jury Votes:'')) 1 [])))
     (label_of (report_dict (lit ''CLEAN'') (lit ''Jury Votes:'')))"
  by (simp add: convert_label reply_labels_reply_env named_labels_tightening
      less_favourable_def tier_def)

text \<open>
  C4. On a round that reaches a verdict (the list of facts is not empty, its log is
  written, and the court reports at least one claim whenever it returns) the report of
  \<^verbatim>\<open>call_factcheck_service\<close> has a label, and the label is CLEAN, SUSPICIOUS or FAKE.
\<close>

theorem service_label_enumerated:
  assumes "facts_list \<noteq> []" and "\<not> io_fails e FactLog"
    and "\<forall>c t report. hear e c t = Inr report \<longrightarrow> claims report \<noteq> []"
  shows "\<exists>l \<in> set valid_labels.
           snd (call_factcheck_service e w facts_list url test_mode) (lit ''confidence'') = Some l"
proof (cases "verify_text e (write_fact_log e w url facts_list) (facts_text facts_list)")
  case (Pair w2 outcome)
  show ?thesis
  proof (cases outcome)
    case (Inl x)
    with Pair have "isl (snd (verify_text e (write_fact_log e w url facts_list)
                       (facts_text facts_list)))"
      by simp
    then have "snd (call_factcheck_service e w facts_list url test_mode) =
                 fallback_result (length facts_list)"
      using assms(1,2) by (rule service_with_court_failure [rotated 2])
    then show ?thesis by (simp add: valid_labels_def)
  next
    case (Inr court_result)
    with Pair have v: "verify_text e (write_fact_log e w url facts_list) (facts_text facts_list) =
                         (w2, Inr court_result)"
      by simp
    from verify_text_cases [OF v] assms(3) obtain res where "court_result = claim_report res"
      by blast
    then have c: "court_result (lit ''confidence'') =
                    Some (dict_get verdict_map (verdict res) (lit ''SUSPICIOUS''))"
      by (simp add: claim_report_confidence)
    show ?thesis
      using service_with_court_result [of facts_list e w url w2 court_result
          "dict_get verdict_map (verdict res) (lit ''SUSPICIOUS'')" test_mode] assms(1,2) v c
        last_valid [OF verdict_map_valid, of "verdict res" e court_result]
      by simp
  qed
qed

text \<open>The theorem at a court that reports one claim.\<close>

theorem service_label_enumerated_witness:
  "[sample_fact] \<noteq> [] \<and> \<not> io_fails quiet_env FactLog \<and>
   (\<exists>l \<in> set valid_labels.
      snd (call_factcheck_service quiet_env fresh_world [sample_fact] [] (lit ''clean''))
        (lit ''confidence'') = Some l)"
  using service_label_enumerated [of "[sample_fact]" quiet_env fresh_world "[]" "lit ''clean''"]
  by (simp add: quiet_env_def plain_report_def)




text \<open>
  C6. Building the court reads the ledger once, and the only juror with a text reference
  holds the ledger as \<^verbatim>\<open>read_text\<close> gave it at that moment; \<^verbatim>\<open>verify_text\<close> hands that
  court to the hearing. A record appended after the build is in the snapshot of a court
  built later and not in the snapshot of the court built before.
\<close>

theorem snapshot_taken_at_build:
  assumes "build_court e w = (w1, Inr c)"
    and "save_user_feedback e' w1 url cb fc ft fp = (w2, Inr u)"
    and "build_court e'' w2 = (w3, Inr c')"
  shows "new_events w w1 = [ReadFile ledger_path] \<and>
         snapshots c = [universal_newlines (ledger_text w)] \<and>
         new_events w (fst (verify_text e w text)) =
           [ReadFile ledger_path, OracleHear c (take 12000 text)] \<and>
         snapshots c' =
           [universal_newlines (ledger_text w @ ledger_record e' url cb fc ft fp)] \<and>
         snapshots c' \<noteq> snapshots c"
proof -
  note b = build_court_ok [OF assms(1)]
  note b' = build_court_ok [OF assms(3)]
  have l: "ledger_text w2 = ledger_text w @ ledger_record e' url cb fc ft fp"
    using save_user_feedback_ok(1) [OF assms(2)] b(1) by simp
  have v: "fst (verify_text e w text) = log_event (OracleHear c (take 12000 text)) w1"
    by (rule verify_text_after_build [OF assms(1)])
  have n: "universal_newlines (ledger_text w @ ledger_record e' url cb fc ft fp) \<noteq>
           universal_newlines (ledger_text w)"
    by (rule universal_newlines_grows [OF ledger_record_has_rule]) simp_all
  show ?thesis
    using b(1,2) b'(2) l v n
    by simp
qed

text \<open>The theorem at a fresh ledger, one submission and a second build.\<close>

theorem snapshot_taken_at_build_witness:
  "\<exists>c w1 w2 c' w3.
     build_court quiet_env fresh_world = (w1, Inr c) \<and>
     save_user_feedback quiet_env w1 (JStr moon_url) (JStr [])
       (JStr (lit ''The moon is made of rock.'')) (JStr (lit ''fact''))
       (JStr moon_evidence) = (w2, Inr ()) \<and>
     build_court quiet_env w2 = (w3, Inr c') \<and>
     snapshots c = [initial_ledger] \<and>
     snapshots c' = [universal_newlines (initial_ledger @ ledger_record quiet_env
       (JStr moon_url) (JStr []) (JStr (lit ''The moon is made of rock.''))
       (JStr (lit ''fact'')) (JStr moon_evidence))] \<and>
     new_events fresh_world (fst (verify_text quiet_env fresh_world sample_fact)) =
       [ReadFile ledger_path, OracleHear c (take 12000 sample_fact)]"
proof -
  let ?c = "\<lparr>juries = [jury_gpt, jury_gemini, jury_web, jury_rag, jury_feedback initial_ledger],
           quorum = 3, concurrency_limit = 5\<rparr>"
  let ?w1 = "log_event (ReadFile ledger_path) fresh_world"
  let ?r = "ledger_record quiet_env (JStr moon_url) (JStr [])
       (JStr (lit ''The moon is made of rock.'')) (JStr (lit ''fact'')) (JStr moon_evidence)"
  have b: "build_court quiet_env fresh_world = (?w1, Inr ?c)"
    by (rule build_court_fresh)
  obtain w2 where s: "save_user_feedback quiet_env ?w1 (JStr moon_url) (JStr [])
       (JStr (lit ''The moon is made of rock.'')) (JStr (lit ''fact''))
       (JStr moon_evidence) = (w2, Inr ())"
    using save_user_feedback_quiet by blast
  have "files w2 ledger_path = Some (ledger_text ?w1 @ ?r)"
    by (rule save_user_feedback_ok(2) [OF s])
  then obtain c' where b': "build_court quiet_env w2 = (log_event (ReadFile ledger_path) w2, Inr c')"
    using build_court_quiet by blast
  show ?thesis
    using snapshot_taken_at_build [OF b s b', of sample_fact] b s b'
    by (intro exI [of _ ?c] exI [of _ ?w1] exI [of _ w2] exI [of _ c']
        exI [of _ "log_event (ReadFile ledger_path) w2"])
      (simp add: universal_newlines_initial)
qed

text \<open>
  C7. \<^verbatim>\<open>verify_text\<close> depends on the first 12000 characters of its text only, and every
  oracle call it makes is given exactly these; \<^verbatim>\<open>extract_facts_claude\<close> depends on the
  first 15000 characters only, and its first oracle call is the extraction, with exactly
  these as the query.
\<close>

theorem text_truncated_before_oracle:
  "verify_text e w (take 12000 text) = verify_text e w text \<and>
   (\<forall>ev \<in> set (new_events w (fst (verify_text e w text))).
      oracle_text ev \<in> {None, Some (take 12000 text)}) \<and>
   extract_facts_claude e w (take 15000 text) url = extract_facts_claude e w text url \<and>
   (\<exists>pre post. new_events w (fst (extract_facts_claude e w text url)) =
       pre @ [OracleGenerate haiku (extract_system_prompt e) (take 15000 text)] @ post \<and>
     (\<forall>ev \<in> set pre. oracle_text ev = None))"
proof -
  have a: "verify_text e w (take 12000 text) = verify_text e w text"
    by (simp add: verify_text_def Let_def split: prod.splits sum.splits)
  obtain xs where xs: "events (fst (verify_text e w text)) = events w @ xs"
    "\<forall>ev \<in> set xs. oracle_text ev \<in> {None, Some (take 12000 text)}"
    using verify_text_events by blast
  have b: "\<forall>ev \<in> set (new_events w (fst (verify_text e w text))).
      oracle_text ev \<in> {None, Some (take 12000 text)}"
    using xs by (simp add: new_events_append)
  have c: "extract_facts_claude e w (take 15000 text) url = extract_facts_claude e w text url"
    by (simp add: extract_facts_claude_def Let_def)
  obtain pre post where pp: "events (fst (extract_facts_claude e w text url)) =
       events w @ pre @
         [OracleGenerate haiku (extract_system_prompt e) (take 15000 text)] @ post"
     "\<forall>ev \<in> set pre. oracle_text ev = None"
    using extract_events by blast
  have d: "\<exists>pre post. new_events w (fst (extract_facts_claude e w text url)) =
       pre @ [OracleGenerate haiku (extract_system_prompt e) (take 15000 text)] @ post \<and>
     (\<forall>ev \<in> set pre. oracle_text ev = None)"
    using pp by (intro exI [of _ pre] exI [of _ post]) (simp add: new_events_append)
  from a b c d show ?thesis by blast
qed

text \<open>The theorem at texts one character longer than the bounds.\<close>

theorem text_truncated_before_oracle_witness:
  "verify_text quiet_env fresh_world (replicate 12000 97) =
     verify_text quiet_env fresh_world (replicate 12001 97) \<and>
   extract_facts_claude quiet_env fresh_world (replicate 15000 97) [] =
     extract_facts_claude quiet_env fresh_world (replicate 15001 97) [] \<and>
   new_events fresh_world (fst (verify_text quiet_env fresh_world (replicate 12001 97))) =
     [ReadFile ledger_path,
      OracleHear \<lparr>juries = [jury_gpt, jury_gemini, jury_web, jury_rag,
                            jury_feedback initial_ledger],
                  quorum = 3, concurrency_limit = 5\<rparr> (replicate 12000 97)]"
  using text_truncated_before_oracle [of quiet_env fresh_world "replicate 12001 97"]
    text_truncated_before_oracle [of quiet_env fresh_world "replicate 15001 97" "[]"]
    verify_text_after_build [OF build_court_fresh, of "replicate 12001 97"]
  by simp

text \<open>
  C8 (amended). After a run of submissions that are all accepted and saved, there are as many
  answers as submissions and the ledger file holds its former text followed by the records
  of the submissions in the order of the run; every record starts with the fixed header.
  Reading the ledger back gives this text with the newlines of text mode: every carriage
  return, with the line feed that may follow it, as one line feed.
\<close>

theorem ledger_appends_in_order:
  assumes "submit_all w subs = (w', rs)" and "\<forall>r \<in> set rs. success r"
  shows "length rs = length subs \<and>
         ledger_text w' = ledger_text w @ concat (map record_of subs) \<and>
         (\<forall>s \<in> set subs. startswith (record_of s) record_header) \<and>
         (subs \<noteq> [] \<and> \<not> io_fails e ReadLedger \<longrightarrow>
          snd (read_ledger e w') =
            Inr (universal_newlines (ledger_text w @ concat (map record_of subs))))"
proof -
  note l = submit_all_ledger [OF assms]
  have h: "\<forall>s \<in> set subs. startswith (record_of s) record_header"
  proof
    fix s assume "s \<in> set subs"
    with l have "valid_feedback (snd s)" by simp
    then obtain kvs where "snd s = JObj kvs"
      by (cases "snd s") (simp_all add: valid_feedback_def)
    then have "s = (fst s, JObj kvs)" by (cases s) simp
    then show "startswith (record_of s) record_header"
      using record_starts_with_header [of "fst s" kvs] by simp
  qed
  have r: "subs \<noteq> [] \<and> \<not> io_fails e ReadLedger \<longrightarrow>
          snd (read_ledger e w') =
            Inr (universal_newlines (ledger_text w @ concat (map record_of subs)))"
    using l read_ledger_file [of w' "ledger_text w'" e] by auto
  from submit_all_length [OF assms(1)] l h r show ?thesis by simp
qed

text \<open>The theorem at two submissions.\<close>

theorem ledger_appends_in_order_witness:
  "map success (snd (submit_all fresh_world [(quiet_env, good_feedback),
      (later_env, second_feedback)])) = [True, True] \<and>
   ledger_text (fst (submit_all fresh_world [(quiet_env, good_feedback),
      (later_env, second_feedback)])) =
     initial_ledger @ record_of (quiet_env, good_feedback) @
       record_of (later_env, second_feedback) \<and>
   snd (read_ledger quiet_env (fst (submit_all fresh_world [(quiet_env, good_feedback),
      (later_env, second_feedback)]))) =
     Inr (universal_newlines (initial_ledger @ record_of (quiet_env, good_feedback) @
       record_of (later_env, second_feedback)))"
proof -
  let ?subs = "[(quiet_env, good_feedback), (later_env, second_feedback)]"
  have ok: "map success (snd (submit_all fresh_world ?subs)) = [True, True]"
    by (simp add: submit_all_two submit_accepts valid_good_feedback
        valid_second_feedback del: submit_all.simps)
  then have "\<forall>r \<in> set (snd (submit_all fresh_world ?subs)). success r"
    by (simp add: submit_all_two del: submit_all.simps)
  then show ?thesis
    using ledger_appends_in_order [of fresh_world ?subs "fst (submit_all fresh_world ?subs)"
        "snd (submit_all fresh_world ?subs)" quiet_env] ok
    by (simp del: submit_all.simps)
qed

text \<open>
  C8 as stated fails: the records have no footer and their fields are written as they
  come, so a run of one submission and a run of two leave the same ledger, and the text of
  the ledger, stored or read back, does not give the boundaries of its records.
\<close>

theorem ledger_boundaries_ambiguous:
  "map success (snd (submit_all fresh_world [(quiet_env, forged_feedback)])) = [True] \<and>
   map success (snd (submit_all fresh_world [(quiet_env, good_feedback),
      (later_env, second_feedback)])) = [True, True] \<and>
   ledger_text (fst (submit_all fresh_world [(quiet_env, forged_feedback)])) =
   ledger_text (fst (submit_all fresh_world [(quiet_env, good_feedback),
      (later_env, second_feedback)])) \<and>
   snd (read_ledger quiet_env (fst (submit_all fresh_world [(quiet_env, forged_feedback)]))) =
   snd (read_ledger quiet_env (fst (submit_all fresh_world [(quiet_env, good_feedback),
      (later_env, second_feedback)])))"
proof -
  let ?one = "[(quiet_env, forged_feedback)]"
  let ?two = "[(quiet_env, good_feedback), (later_env, second_feedback)]"
  have ok1: "map success (snd (submit_all fresh_world ?one)) = [True]"
    by (simp add: submit_all_one submit_accepts valid_forged_feedback
        del: submit_all.simps)
  have ok2: "map success (snd (submit_all fresh_world ?two)) = [True, True]"
    by (simp add: submit_all_two submit_accepts valid_good_feedback
        valid_second_feedback del: submit_all.simps)
  have l1: "ledger_text (fst (submit_all fresh_world ?one)) =
      ledger_text fresh_world @ concat (map record_of ?one) \<and>
      (\<forall>s \<in> set ?one. valid_feedback (snd s)) \<and>
      (?one \<noteq> [] \<longrightarrow> files (fst (submit_all fresh_world ?one)) ledger_path =
         Some (ledger_text (fst (submit_all fresh_world ?one))))"
    by (rule submit_all_ledger [of _ _ _ "snd (submit_all fresh_world ?one)"])
      (simp_all add: submit_all_one submit_accepts valid_forged_feedback
        del: submit_all.simps)
  have l2: "ledger_text (fst (submit_all fresh_world ?two)) =
      ledger_text fresh_world @ concat (map record_of ?two) \<and>
      (\<forall>s \<in> set ?two. valid_feedback (snd s)) \<and>
      (?two \<noteq> [] \<longrightarrow> files (fst (submit_all fresh_world ?two)) ledger_path =
         Some (ledger_text (fst (submit_all fresh_world ?two))))"
    by (rule submit_all_ledger [of _ _ _ "snd (submit_all fresh_world ?two)"])
      (simp_all add: submit_all_two submit_accepts valid_good_feedback
        valid_second_feedback del: submit_all.simps)
  have e: "ledger_text (fst (submit_all fresh_world ?one)) =
      ledger_text (fst (submit_all fresh_world ?two))"
    using l1 l2 by (simp add: forged_record del: submit_all.simps)
  have "snd (read_ledger quiet_env (fst (submit_all fresh_world ?one))) =
      Inr (universal_newlines (ledger_text (fst (submit_all fresh_world ?one))))"
    using l1 by (intro read_ledger_file) (simp_all del: submit_all.simps)
  moreover have "snd (read_ledger quiet_env (fst (submit_all fresh_world ?two))) =
      Inr (universal_newlines (ledger_text (fst (submit_all fresh_world ?two))))"
    using l2 by (intro read_ledger_file) (simp_all del: submit_all.simps)
  ultimately show ?thesis
    using ok1 ok2 e by (simp del: submit_all.simps)
qed

text \<open>
  C9. When the court is built and the first claim of its report has a verdict that is none
  of supported, suspicious and refuted, \<^verbatim>\<open>verify_text\<close> returns a report whose label is
  SUSPICIOUS.
\<close>

theorem verify_text_unknown_verdict:
  assumes "build_court e w = (w1, Inr c)"
    and "hear e c (take 12000 text) = Inr report"
    and "claims report = res # rest"
    and "verdict res \<notin> {lit ''supported'', lit ''suspicious'', lit ''refuted''}"
  shows "\<exists>w' r. verify_text e w text = (w', Inr r) \<and>
                 r (lit ''confidence'') = Some (lit ''SUSPICIOUS'')"
  using assms
  by (simp add: verify_text_def Let_def claim_report_confidence verdict_map_unknown)

text \<open>The theorem at a court whose verdict is \<^verbatim>\<open>unclear\<close>.\<close>

theorem verify_text_unknown_verdict_witness:
  "lit ''unclear'' \<notin> {lit ''supported'', lit ''suspicious'', lit ''refuted''} \<and>
   (\<exists>w' r. verify_text quiet_env fresh_world sample_fact = (w', Inr r) \<and>
            r (lit ''confidence'') = Some (lit ''SUSPICIOUS''))"
  using verify_text_unknown_verdict [OF build_court_fresh, of sample_fact
      "plain_report (lit ''unclear'')"
      "\<lparr>verdict = lit ''unclear'', judge_reasoning = [], jury_votes = []\<rparr>" "[]"]
  by (simp add: quiet_env_def plain_report_def)

text \<open>
  C10. When the conversion raises (the oracle raises, or its reply has no result),
  \<^verbatim>\<open>convert_court_result_to_user_format\<close> returns the court result as it was given.
\<close>

theorem convert_failure_keeps_court_result:
  "conversion_fails e court_result \<Longrightarrow>
   snd (convert_court_result_to_user_format e w court_result fact_count url) = court_result"
  by (auto simp: conversion_fails_def conversion_reply_def
      convert_court_result_to_user_format_def Let_def split: sum.splits)

text \<open>The theorem at an oracle that raises.\<close>

theorem convert_failure_keeps_court_result_witness:
  "conversion_fails quiet_env (report_dict (lit ''FAKE'') (lit ''Jury Votes:'')) \<and>
   snd (convert_court_result_to_user_format quiet_env fresh_world
          (report_dict (lit ''FAKE'') (lit ''Jury Votes:'')) 1 []) =
     report_dict (lit ''FAKE'') (lit ''Jury Votes:'')"
  using convert_failure_keeps_court_result [of quiet_env
      "report_dict (lit ''FAKE'') (lit ''Jury Votes:'')" fresh_world 1 "[]"]
  by (simp add: conversion_fails_def conversion_reply_def quiet_env_def)

end
